theory Spec2Isabelle
  imports Complex_Main "HOL-Library.AList" "HOL-Library.Log_Nat"
begin

section \<open>The record access layer of the career counsellor backend (aws\_client.py)\<close>

text \<open>
  The program keeps every collection in one JSON document, \<^verbatim>\<open>data/store.json\<close>. Each
  method of \<^verbatim>\<open>AwsClient\<close> reads the whole document, changes it in memory and writes the
  whole document back. The model below passes the state of that file explicitly.

  Modelling conventions.
  \<^item> A Python dict that the code uses as a struct is a record. A key that the code reads
    with \<^verbatim>\<open>.get\<close> is an option field: \<open>None\<close> stands for an absent key (or a JSON
    \<^verbatim>\<open>null\<close>, which \<^verbatim>\<open>.get(k) or default\<close> and \<^verbatim>\<open>.get(k) == v\<close> cannot tell apart).
    Field names carry a one-letter prefix of their record (\<open>u_\<close>, \<open>g_\<close>, \<open>a_\<close>, ...).
  \<^item> Free-form JSON (the profile, keys the modelled methods never touch) is a value of
    the datatype \<open>json\<close>; a dict in it is an association list in insertion order.
  \<^item> \<^verbatim>\<open>uuid.uuid4()\<close> and \<^verbatim>\<open>datetime.utcnow()\<close> are inputs: they come from the record
    \<open>env\<close>. The k-th call of \<^verbatim>\<open>uuid4\<close> returns \<open>uuid_src env k\<close>; the counter is part
    of the state. The clock is read once per top-level call (\<open>now env\<close>).
  \<^item> Strings are lists of 8-bit characters; \<^verbatim>\<open>lower\<close> and \<^verbatim>\<open>upper\<close> act on the ASCII
    letters.
  \<^item> \<^verbatim>\<open>json.dump\<close> followed by \<^verbatim>\<open>json.load\<close> is the identity on such documents, so the
    file holds a document rather than its text. Failures of the file system on writing
    and the optional SNS publication (whose exceptions the code swallows) are outside
    the model.
\<close>

subsection \<open>JSON values and Python dicts\<close>

datatype json =
    JNull
  | JBool bool
  | JInt int
  | JStr string
  | JArr "json list"
  | JObj "(string \<times> json) list"

type_synonym dict = "(string \<times> json) list"

text \<open>Python truthiness, as used by \<^verbatim>\<open>x or default\<close>.\<close>

fun truthy :: "json \<Rightarrow> bool" where
  "truthy JNull = False"
| "truthy (JBool b) = b"
| "truthy (JInt n) = (n \<noteq> 0)"
| "truthy (JStr s) = (s \<noteq> [])"
| "truthy (JArr xs) = (xs \<noteq> [])"
| "truthy (JObj kvs) = (kvs \<noteq> [])"

text \<open>\<^verbatim>\<open>d.update(e)\<close>: every item of \<open>e\<close> in order; an existing key keeps its place.\<close>

definition dict_update :: "dict \<Rightarrow> dict \<Rightarrow> dict" where
  "dict_update d e = fold (\<lambda>kv acc. AList.update (fst kv) (snd kv) acc) e d"

subsection \<open>Strings\<close>

definition lower_char :: "char \<Rightarrow> char" where
  "lower_char c =
     (let n = (of_char c :: nat) in if 65 \<le> n \<and> n \<le> 90 then char_of (n + 32) else c)"

definition upper_char :: "char \<Rightarrow> char" where
  "upper_char c =
     (let n = (of_char c :: nat) in if 97 \<le> n \<and> n \<le> 122 then char_of (n - 32) else c)"

definition lower :: "string \<Rightarrow> string" where
  "lower s = map lower_char s"

definition upper :: "string \<Rightarrow> string" where
  "upper s = map upper_char s"

text \<open>\<^verbatim>\<open>a.startswith(b)\<close> and \<^verbatim>\<open>b in a\<close> on strings.\<close>

fun starts_with :: "string \<Rightarrow> string \<Rightarrow> bool" where
  "starts_with s [] = True"
| "starts_with [] (c # cs) = False"
| "starts_with (d # ds) (c # cs) = (d = c \<and> starts_with ds cs)"

fun str_in :: "string \<Rightarrow> string \<Rightarrow> bool" where
  "str_in n [] = (n = [])"
| "str_in n (c # cs) = (starts_with (c # cs) n \<or> str_in n cs)"

text \<open>\<^verbatim>\<open>str(n)\<close> for an integer.\<close>

definition digit_char :: "nat \<Rightarrow> char" where
  "digit_char d = char_of (48 + d)"

fun str_nat :: "nat \<Rightarrow> string" where
  "str_nat n = (if n < 10 then [digit_char n] else str_nat (n div 10) @ [digit_char (n mod 10)])"

declare str_nat.simps [simp del]

definition str_int :: "int \<Rightarrow> string" where
  "str_int i = (if i < 0 then CHR ''-'' # str_nat (nat (- i)) else str_nat (nat i))"

text \<open>\<^verbatim>\<open>s.split()\<close>: the maximal runs of characters that are not white space.\<close>

definition is_space :: "char \<Rightarrow> bool" where
  "is_space c = (c \<in> set [CHR '' '', CHR 0x09, CHR 0x0A, CHR 0x0B, CHR 0x0C, CHR 0x0D])"

fun split_acc :: "string \<Rightarrow> string \<Rightarrow> string list" where
  "split_acc cur [] = (if cur = [] then [] else [cur])"
| "split_acc cur (c # cs) =
     (if is_space c then (if cur = [] then split_acc [] cs else cur # split_acc [] cs)
      else split_acc (cur @ [c]) cs)"

definition split :: "string \<Rightarrow> string list" where
  "split s = split_acc [] s"

subsection \<open>The store document\<close>

record badge =
  b_name :: string
  b_icon :: string
  b_description :: string
  b_earnedAt :: string

record gamification =
  g_xp :: "int option"
  g_level :: "int option"
  g_badges :: "badge list option"
  g_streak :: "int option"
  g_lastLoginDate :: "int option"
  g_achievements :: "json list option"

text \<open>
  \<open>g_lastLoginDate\<close> is the day number of the stored ISO date (the code writes
  \<^verbatim>\<open>date.isoformat()\<close> and reads it back with \<^verbatim>\<open>fromisoformat(...).date()\<close>); \<open>None\<close> is a
  missing, null or empty value, which \<^verbatim>\<open>if last_login:\<close> treats alike.
\<close>

record reward =
  rw_referredUserId :: string
  rw_rewardedAt :: string

record referrals =
  r_code :: "string option"
  r_count :: "int option"
  r_rewards :: "reward list"

record user =
  u_userId :: string
  u_email :: "string option"
  u_passwordHash :: "string option"
  u_profile :: "json option"
  u_createdAt :: "string option"
  u_updatedAt :: "string option"
  u_gamification :: "gamification option"
  u_referrals :: "referrals option"
  u_extra :: dict

record activity =
  a_activityId :: string
  a_userId :: string
  a_title :: string
  a_detail :: string
  a_level :: "string option"
  a_role :: "string option"
  a_quizVariant :: "int option"
  a_status :: "string option"
  a_createdAt :: string
  a_lastScore :: "int option"
  a_completedAt :: "string option"

record notification =
  n_notificationId :: string
  n_userId :: string
  n_type :: string
  n_title :: string
  n_message :: string
  n_link :: "string option"
  n_metadata :: dict
  n_read :: bool
  n_createdAt :: string

text \<open>
  The document: a collection is \<open>None\<close> when its key is absent, which is how
  \<^verbatim>\<open>store.get('users', [])\<close> and \<^verbatim>\<open>'notifications' not in store\<close> see it.
\<close>

record store =
  s_users :: "user list option"
  s_roadmaps :: "json list option"
  s_activities :: "activity list option"
  s_notifications :: "notification list option"
  s_other :: dict

datatype file_state = Missing | Unparseable | Stored store

record env =
  now :: string
  utc_day :: int
  local_day :: int
  uuid_src :: "nat \<Rightarrow> string"
  ddb_put_ok :: bool

record world =
  store_file :: file_state
  uuid_n :: nat

text \<open>
  \<^verbatim>\<open>_read_store\<close>: any exception of \<^verbatim>\<open>open\<close> or \<^verbatim>\<open>json.load\<close> gives the minimal document
  \<^verbatim>\<open>{'users': [], 'roadmaps': []}\<close>.
\<close>

definition empty_store :: store where
  "empty_store =
     \<lparr>s_users = Some [], s_roadmaps = Some [], s_activities = None,
      s_notifications = None, s_other = []\<rparr>"

fun read_store :: "file_state \<Rightarrow> store" where
  "read_store (Stored d) = d"
| "read_store Missing = empty_store"
| "read_store Unparseable = empty_store"

definition write_store :: "store \<Rightarrow> world \<Rightarrow> world" where
  "write_store d w = w\<lparr>store_file := Stored d\<rparr>"

definition get_list :: "'a list option \<Rightarrow> 'a list" where
  "get_list c = (case c of None \<Rightarrow> [] | Some xs \<Rightarrow> xs)"

definition new_uuid :: "env \<Rightarrow> world \<Rightarrow> string \<times> world" where
  "new_uuid e w = (uuid_src e (uuid_n w), w\<lparr>uuid_n := Suc (uuid_n w)\<rparr>)"

subsection \<open>Users\<close>

definition create_user :: "env \<Rightarrow> string \<Rightarrow> string \<Rightarrow> json option \<Rightarrow> world \<Rightarrow> user \<times> world" where
  "create_user e email password profile w =
     (let (user_id, w1) = new_uuid e w;
          user = \<lparr>u_userId = user_id, u_email = Some email, u_passwordHash = Some password,
                  u_profile = Some (case profile of None \<Rightarrow> JObj []
                                    | Some p \<Rightarrow> if truthy p then p else JObj []),
                  u_createdAt = Some (now e), u_updatedAt = None,
                  u_gamification = None, u_referrals = None, u_extra = []\<rparr>;
          store = read_store (store_file w1);
          users = get_list (s_users store);
          users = filter (\<lambda>u. u_email u \<noteq> Some email) users;
          users = users @ [user]
      in (user, write_store (store\<lparr>s_users := Some users\<rparr>) w1))"

definition get_user_by_email :: "string \<Rightarrow> world \<Rightarrow> user option" where
  "get_user_by_email email w =
     List.find (\<lambda>u. u_email u = Some email) (get_list (s_users (read_store (store_file w))))"

definition get_user :: "string \<Rightarrow> world \<Rightarrow> user option" where
  "get_user user_id w =
     List.find (\<lambda>u. u_userId u = user_id) (get_list (s_users (read_store (store_file w))))"

subsection \<open>Activities\<close>

definition complete_activity :: "env \<Rightarrow> string \<Rightarrow> string \<Rightarrow> world \<Rightarrow> bool \<times> world" where
  "complete_activity e user_id activity_id w =
     (let store = read_store (store_file w);
          activities = get_list (s_activities store);
          hit = (\<lambda>a. a_userId a = user_id \<and> a_activityId a = activity_id);
          changed = list_ex hit activities;
          activities = map (\<lambda>a. if hit a
                                 then a\<lparr>a_status := Some ''completed'', a_completedAt := Some (now e)\<rparr>
                                 else a) activities
      in if changed then (True, write_store (store\<lparr>s_activities := Some activities\<rparr>) w)
         else (False, w))"

text \<open>
  \<^verbatim>\<open>save_user_profile(item)\<close>. When a DynamoDB table is configured and its
  \<^verbatim>\<open>put_item\<close> succeeds (\<open>ddb_put_ok\<close>), the method returns without touching the file.
  Otherwise the stored record and the item are merged key by key (\<^verbatim>\<open>merged.update\<close>), and
  when both hold a dict under \<^verbatim>\<open>'profile'\<close> the two profiles are merged by one more
  \<^verbatim>\<open>dict.update\<close>. An item key that holds an explicit \<^verbatim>\<open>null\<close> reads here as an absent key
  (the stored value is kept, where \<^verbatim>\<open>merged.update(item)\<close> would store the null); the caller
  builds the item from \<^verbatim>\<open>userId\<close>, \<^verbatim>\<open>profile\<close> and \<^verbatim>\<open>updatedAt\<close> only.
\<close>

definition or_else :: "'a option \<Rightarrow> 'a option \<Rightarrow> 'a option" where
  "or_else new old = (case new of None \<Rightarrow> old | Some v \<Rightarrow> Some v)"

definition merge_user :: "user \<Rightarrow> user \<Rightarrow> user" where
  "merge_user existing item =
     \<lparr>u_userId = u_userId item,
      u_email = or_else (u_email item) (u_email existing),
      u_passwordHash = or_else (u_passwordHash item) (u_passwordHash existing),
      u_profile = or_else (u_profile item) (u_profile existing),
      u_createdAt = or_else (u_createdAt item) (u_createdAt existing),
      u_updatedAt = or_else (u_updatedAt item) (u_updatedAt existing),
      u_gamification = or_else (u_gamification item) (u_gamification existing),
      u_referrals = or_else (u_referrals item) (u_referrals existing),
      u_extra = dict_update (u_extra existing) (u_extra item)\<rparr>"

definition save_user_profile :: "env \<Rightarrow> user \<Rightarrow> world \<Rightarrow> bool \<times> world" where
  "save_user_profile e item w =
     (if ddb_put_ok e then (True, w)
      else
        let store = read_store (store_file w);
            all_users = get_list (s_users store);
            existing = (case filter (\<lambda>u. u_userId u = u_userId item) all_users of
                          [] \<Rightarrow> None | u # us \<Rightarrow> Some (last (u # us)));
            users = filter (\<lambda>u. u_userId u \<noteq> u_userId item) all_users;
            merged = (case existing of None \<Rightarrow> item | Some ex \<Rightarrow> merge_user ex item);
            merged = (case (existing, u_profile item) of
                        (Some ex, Some (JObj new_profile)) \<Rightarrow>
                          (case u_profile ex of
                             Some (JObj old_profile) \<Rightarrow>
                               merged\<lparr>u_profile := Some (JObj (dict_update old_profile new_profile))\<rparr>
                           | _ \<Rightarrow> merged)
                      | _ \<Rightarrow> merged);
            users = users @ [merged]
        in (True, write_store (store\<lparr>s_users := Some users\<rparr>) w))"

text \<open>
  What the specification asks of the merge, in its own words: nested mappings are merged
  recursively, new keys overwrite, omitted keys persist.
\<close>

fun spec_deep_merge :: "json \<Rightarrow> json \<Rightarrow> json" where
  "spec_deep_merge (JObj old) (JObj new) =
     JObj (map (\<lambda>(k, v). (k, case map_of new k of None \<Rightarrow> v
                                | Some v' \<Rightarrow> spec_deep_merge v v')) old
           @ filter (\<lambda>(k, v). map_of old k = None) new)"
| "spec_deep_merge old new = new"

subsection \<open>Notifications\<close>

definition create_notification ::
  "env \<Rightarrow> string \<Rightarrow> string \<Rightarrow> string \<Rightarrow> string \<Rightarrow> string option \<Rightarrow> dict option \<Rightarrow> world
     \<Rightarrow> notification \<times> world" where
  "create_notification e user_id notification_type title message link metadata w =
     (let store = read_store (store_file w);
          store = (case s_notifications store of
                     None \<Rightarrow> store\<lparr>s_notifications := Some []\<rparr> | Some ns \<Rightarrow> store);
          (nid, w1) = new_uuid e w;
          notification =
            \<lparr>n_notificationId = nid, n_userId = user_id, n_type = notification_type,
             n_title = title, n_message = message, n_link = link,
             n_metadata = (case metadata of None \<Rightarrow> [] | Some m \<Rightarrow> m),
             n_read = False, n_createdAt = now e\<rparr>
      in (notification,
          write_store (store\<lparr>s_notifications :=
                               Some (get_list (s_notifications store) @ [notification])\<rparr>) w1))"

subsection \<open>Gamification\<close>

text \<open>
  Every method below takes its snapshot \<open>store\<close> of the document first and fetches the
  user through \<^verbatim>\<open>get_user\<close>, which parses the file again: \<open>user\<close> is a copy, not a part of
  \<open>store\<close>. The methods called in between (\<^verbatim>\<open>create_notification\<close>, \<^verbatim>\<open>award_xp\<close>,
  \<^verbatim>\<open>award_badge\<close>) write the file themselves; the final \<^verbatim>\<open>_write_store(store)\<close> then writes
  the snapshot with the one user record replaced.
\<close>

definition award_xp :: "env \<Rightarrow> string \<Rightarrow> int \<Rightarrow> world \<Rightarrow> gamification option \<times> world" where
  "award_xp e user_id amount w =
     (let store = read_store (store_file w)
      in case get_user user_id w of
           None \<Rightarrow> (None, w)
         | Some user \<Rightarrow>
             let g = (case u_gamification user of
                        None \<Rightarrow> \<lparr>g_xp = Some 0, g_level = Some 1, g_badges = Some [],
                                 g_streak = Some 0, g_lastLoginDate = None,
                                 g_achievements = Some []\<rparr>
                      | Some g \<Rightarrow> g);
                 new_xp = (case g_xp g of None \<Rightarrow> 0 | Some x \<Rightarrow> x) + amount;
                 g = g\<lparr>g_xp := Some new_xp\<rparr>;
                 new_level = new_xp div 100 + 1;
                 old_level = (case g_level g of None \<Rightarrow> 1 | Some l \<Rightarrow> l);
                 g = g\<lparr>g_level := Some new_level\<rparr>;
                 w1 = (if new_level > old_level
                       then snd (create_notification e user_id ''achievement'' ''Level Up! ''
                                   (''You reached level '' @ str_int new_level
                                      @ ''! Keep up the great work!'')
                                   (Some ''/dashboard'') None w)
                       else w);
                 user = user\<lparr>u_gamification := Some g, u_updatedAt := Some (now e)\<rparr>;
                 users = filter (\<lambda>u. u_userId u \<noteq> user_id) (get_list (s_users store));
                 users = users @ [user]
             in (Some g, write_store (store\<lparr>s_users := Some users\<rparr>) w1))"

definition award_badge ::
  "env \<Rightarrow> string \<Rightarrow> string \<Rightarrow> string \<Rightarrow> string option \<Rightarrow> world \<Rightarrow> bool \<times> world" where
  "award_badge e user_id badge_name badge_icon description w =
     (let store = read_store (store_file w)
      in case get_user user_id w of
           None \<Rightarrow> (False, w)
         | Some user \<Rightarrow>
             let g = (case u_gamification user of
                        None \<Rightarrow> \<lparr>g_xp = Some 0, g_level = Some 1, g_badges = Some [],
                                 g_streak = Some 0, g_lastLoginDate = None,
                                 g_achievements = None\<rparr>
                      | Some g \<Rightarrow> g);
                 badges = get_list (g_badges g);
                 badge_exists = list_ex (\<lambda>b. b_name b = badge_name) badges
             in if \<not> badge_exists then
                  let badge = \<lparr>b_name = badge_name, b_icon = badge_icon,
                               b_description =
                                 (case description of
                                    None \<Rightarrow> ''Achievement: '' @ badge_name
                                  | Some d \<Rightarrow> if d = [] then ''Achievement: '' @ badge_name else d),
                               b_earnedAt = now e\<rparr>;
                      badges = badges @ [badge];
                      user = user\<lparr>u_gamification := Some (g\<lparr>g_badges := Some badges\<rparr>),
                                  u_updatedAt := Some (now e)\<rparr>;
                      w1 = snd (award_xp e user_id 50 w);
                      w2 = snd (create_notification e user_id ''achievement''
                                  (''New Badge Earned! '' @ badge_icon)
                                  (''You earned the '' @ [CHR 0x22] @ badge_name @ [CHR 0x22] @ '' badge!'')
                                  (Some ''/dashboard'') None w1);
                      users = filter (\<lambda>u. u_userId u \<noteq> user_id) (get_list (s_users store));
                      users = users @ [user]
                  in (True, write_store (store\<lparr>s_users := Some users\<rparr>) w2)
                else (False, w))"

text \<open>
  \<^verbatim>\<open>update_streak\<close>. \<open>today\<close> is the UTC date (\<^verbatim>\<open>datetime.utcnow().date()\<close>); the
  difference in days is taken from the local date (\<^verbatim>\<open>date.today()\<close>). The three branches
  that change the streak share the rest of the method, \<open>streak_commit\<close>.
\<close>

definition streak_commit ::
  "env \<Rightarrow> string \<Rightarrow> store \<Rightarrow> user \<Rightarrow> gamification \<Rightarrow> world \<Rightarrow> gamification option \<times> world" where
  "streak_commit e user_id store user g w =
     (let g = g\<lparr>g_lastLoginDate := Some (utc_day e)\<rparr>;
          user = user\<lparr>u_gamification := Some g, u_updatedAt := Some (now e)\<rparr>;
          w1 = snd (award_xp e user_id 10 w);
          streak = (case g_streak g of None \<Rightarrow> 0 | Some n \<Rightarrow> n);
          w2 = (if streak \<in> set [7, 30, 100]
                then snd (award_badge e user_id (str_int streak @ '' Day Streak'') []
                            (Some (''Logged in for '' @ str_int streak @ '' consecutive days!'')) w1)
                else w1);
          users = filter (\<lambda>u. u_userId u \<noteq> user_id) (get_list (s_users store));
          users = users @ [user]
      in (Some g, write_store (store\<lparr>s_users := Some users\<rparr>) w2))"

definition update_streak :: "env \<Rightarrow> string \<Rightarrow> world \<Rightarrow> gamification option \<times> world" where
  "update_streak e user_id w =
     (let store = read_store (store_file w)
      in case get_user user_id w of
           None \<Rightarrow> (None, w)
         | Some user \<Rightarrow>
             let g = (case u_gamification user of
                        None \<Rightarrow> \<lparr>g_xp = Some 0, g_level = Some 1, g_badges = None,
                                 g_streak = Some 0, g_lastLoginDate = None,
                                 g_achievements = None\<rparr>
                      | Some g \<Rightarrow> g);
                 today = utc_day e;
                 last_login = g_lastLoginDate g
             in if last_login = Some today then (Some g, w)
                else (case last_login of
                        Some last_date \<Rightarrow>
                          if local_day e - last_date = 1
                          then streak_commit e user_id store user
                                 (g\<lparr>g_streak := Some ((case g_streak g of None \<Rightarrow> 0 | Some n \<Rightarrow> n) + 1)\<rparr>) w
                          else if local_day e - last_date > 1
                          then streak_commit e user_id store user (g\<lparr>g_streak := Some 1\<rparr>) w
                          else (Some g, w)
                      | None \<Rightarrow> streak_commit e user_id store user (g\<lparr>g_streak := Some 1\<rparr>) w))"

subsection \<open>Referrals\<close>

text \<open>
  \<^verbatim>\<open>use_referral_code\<close>: the loop returns at the first user whose referral code equals
  \<^verbatim>\<open>referral_code.upper()\<close>. \<open>r_rewards\<close> is a plain list: \<^verbatim>\<open>create_referral_code\<close>, the only
  writer of a referral record, always stores the key.
\<close>

definition has_code :: "string \<Rightarrow> user \<Rightarrow> bool" where
  "has_code c u = (case u_referrals u of None \<Rightarrow> False | Some r \<Rightarrow> r_code r = Some c)"

definition use_referral_code :: "env \<Rightarrow> string \<Rightarrow> string \<Rightarrow> world \<Rightarrow> bool \<times> world" where
  "use_referral_code e new_user_id referral_code w =
     (let store = read_store (store_file w)
      in case List.find (has_code (upper referral_code)) (get_list (s_users store)) of
           None \<Rightarrow> (False, w)
         | Some user \<Rightarrow>
             (case u_referrals user of
                None \<Rightarrow> (False, w)
              | Some r \<Rightarrow>
                  let cnt = (case r_count r of None \<Rightarrow> 0 | Some n \<Rightarrow> n) + 1;
                      r = r\<lparr>r_count := Some cnt,
                            r_rewards := r_rewards r
                               @ [\<lparr>rw_referredUserId = new_user_id, rw_rewardedAt = now e\<rparr>]\<rparr>;
                      user = user\<lparr>u_referrals := Some r\<rparr>;
                      w1 = snd (award_xp e (u_userId user) 100 w);
                      w2 = snd (award_xp e new_user_id 50 w1);
                      w3 = (if cnt \<ge> 5
                            then snd (award_badge e (u_userId user) ''Super Connector'' []
                                        (Some ''Referred 5+ friends!'') w2)
                            else w2);
                      users = filter (\<lambda>u. u_userId u \<noteq> u_userId user) (get_list (s_users store));
                      users = users @ [user]
                  in (True, write_store (store\<lparr>s_users := Some users\<rparr>) w3)))"

subsection \<open>Quizzes\<close>

text \<open>
  Python's \<^verbatim>\<open>float\<close> is IEEE binary64. On the normal range a real number \<open>x\<close> with
  \<open>2^k \<le> |x| < 2^(k+1)\<close> is rounded to the nearest multiple of \<open>2^(k-52)\<close>, ties to the
  even multiple. \<^verbatim>\<open>a / b\<close> on integers and \<^verbatim>\<open>x * 100\<close> are each one such rounding of the
  exact result; \<^verbatim>\<open>int(x)\<close> truncates towards zero.
\<close>

definition pow2 :: "int \<Rightarrow> rat" where
  "pow2 k = (if 0 \<le> k then 2 ^ nat k else 1 / 2 ^ nat (- k))"

definition ilog2 :: "rat \<Rightarrow> int" where
  "ilog2 x =
     (let (p, q) = quotient_of x;
          d = bitlen p - bitlen q
      in if pow2 d \<le> x then d else d - 1)"

definition round_half_even :: "rat \<Rightarrow> int" where
  "round_half_even x =
     (let f = \<lfloor>x\<rfloor>; r = x - of_int f
      in if r < 1 / 2 then f else if 1 / 2 < r then f + 1 else if even f then f else f + 1)"

definition fl :: "rat \<Rightarrow> rat" where
  "fl x =
     (if x = 0 then 0
      else let u = pow2 (ilog2 \<bar>x\<bar> - 52)
           in sgn x * of_int (round_half_even (\<bar>x\<bar> / u)) * u)"

definition py_int :: "rat \<Rightarrow> int" where
  "py_int x = (if 0 \<le> x then \<lfloor>x\<rfloor> else \<lceil>x\<rceil>)"

text \<open>\<^verbatim>\<open>int((correct / max(1, len(questions))) * 100)\<close>\<close>

definition quiz_score :: "nat \<Rightarrow> nat \<Rightarrow> int" where
  "quiz_score correct n =
     py_int (fl (fl (of_nat correct / of_nat (max 1 n)) * 100))"

text \<open>
  The quiz table of \<^verbatim>\<open>_sample_quiz\<close>. \<^verbatim>\<open>grade_quiz\<close> reads the \<^verbatim>\<open>id\<close> and the \<^verbatim>\<open>answer\<close> of
  every question and nothing else, so a quiz is the list of these pairs, in the order
  of the source; titles, question texts and choices are left out. A dict is an
  association list in insertion order.
\<close>

datatype question = Q (q_id: string) (q_answer: int)

type_synonym quiz = "question list"

definition teacher_quizzes :: "(string \<times> quiz list) list" where
  "teacher_quizzes =
     [(''basic'',
        [[Q ''q1'' 1, Q ''q2'' 1, Q ''q3'' 1, Q ''q4'' 1, Q ''q5'' 1],
         [Q ''q1'' 1, Q ''q2'' 1, Q ''q3'' 1, Q ''q4'' 1, Q ''q5'' 1],
         [Q ''q1'' 1, Q ''q2'' 1, Q ''q3'' 1, Q ''q4'' 1, Q ''q5'' 1],
         [Q ''q1'' 1, Q ''q2'' 1, Q ''q3'' 1, Q ''q4'' 1, Q ''q5'' 1],
         [Q ''q1'' 1, Q ''q2'' 1, Q ''q3'' 1, Q ''q4'' 1, Q ''q5'' 1]]),
      (''intermediate'',
        [[Q ''q1'' 1, Q ''q2'' 1, Q ''q3'' 1, Q ''q4'' 1],
         [Q ''q1'' 1, Q ''q2'' 1, Q ''q3'' 1, Q ''q4'' 1],
         [Q ''q1'' 1, Q ''q2'' 1, Q ''q3'' 1, Q ''q4'' 1],
         [Q ''q1'' 1, Q ''q2'' 1, Q ''q3'' 1, Q ''q4'' 1],
         [Q ''q1'' 1, Q ''q2'' 1, Q ''q3'' 1, Q ''q4'' 1]]),
      (''advanced'',
        [[Q ''q1'' 1, Q ''q2'' 1, Q ''q3'' 1, Q ''q4'' 1],
         [Q ''q1'' 1, Q ''q2'' 1, Q ''q3'' 1, Q ''q4'' 1],
         [Q ''q1'' 1, Q ''q2'' 1, Q ''q3'' 1, Q ''q4'' 1]])]"

definition software_engineer_quizzes :: "(string \<times> quiz list) list" where
  "software_engineer_quizzes =
     [(''basic'',
        [[Q ''q1'' 0, Q ''q2'' 1, Q ''q3'' 0, Q ''q4'' 1, Q ''q5'' 1, Q ''q6'' 1],
         [Q ''q1'' 1, Q ''q2'' 1, Q ''q3'' 1, Q ''q4'' 1, Q ''q5'' 1, Q ''q6'' 1],
         [Q ''q1'' 1, Q ''q2'' 1, Q ''q3'' 0, Q ''q4'' 1, Q ''q5'' 0, Q ''q6'' 1],
         [Q ''q1'' 1, Q ''q2'' 1, Q ''q3'' 1, Q ''q4'' 1, Q ''q5'' 1, Q ''q6'' 1],
         [Q ''q1'' 0, Q ''q2'' 1, Q ''q3'' 1, Q ''q4'' 1, Q ''q5'' 1, Q ''q6'' 1]]),
      (''intermediate'',
        [[Q ''q1'' 1, Q ''q2'' 1, Q ''q3'' 1, Q ''q4'' 1, Q ''q5'' 1],
         [Q ''q1'' 1, Q ''q2'' 1, Q ''q3'' 1, Q ''q4'' 1, Q ''q5'' 1],
         [Q ''q1'' 1, Q ''q2'' 1, Q ''q3'' 1, Q ''q4'' 1, Q ''q5'' 1],
         [Q ''q1'' 1, Q ''q2'' 1, Q ''q3'' 1, Q ''q4'' 1, Q ''q5'' 1],
         [Q ''q1'' 1, Q ''q2'' 1, Q ''q3'' 1, Q ''q4'' 1, Q ''q5'' 1]]),
      (''advanced'',
        [[Q ''q1'' 1, Q ''q2'' 1, Q ''q3'' 1, Q ''q4'' 1],
         [Q ''q1'' 1, Q ''q2'' 1, Q ''q3'' 1, Q ''q4'' 1],
         [Q ''q1'' 1, Q ''q2'' 1, Q ''q3'' 1, Q ''q4'' 1]])]"

definition data_analyst_quizzes :: "(string \<times> quiz list) list" where
  "data_analyst_quizzes =
     [(''basic'',
        [[Q ''q1'' 1, Q ''q2'' 1, Q ''q3'' 1, Q ''q4'' 1, Q ''q5'' 1, Q ''q6'' 1],
         [Q ''q1'' 1, Q ''q2'' 1, Q ''q3'' 1, Q ''q4'' 1, Q ''q5'' 1, Q ''q6'' 1],
         [Q ''q1'' 1, Q ''q2'' 1, Q ''q3'' 1, Q ''q4'' 1, Q ''q5'' 1, Q ''q6'' 1],
         [Q ''q1'' 1, Q ''q2'' 1, Q ''q3'' 1, Q ''q4'' 1, Q ''q5'' 1, Q ''q6'' 1],
         [Q ''q1'' 1, Q ''q2'' 1, Q ''q3'' 1, Q ''q4'' 1, Q ''q5'' 1, Q ''q6'' 1]]),
      (''intermediate'',
        [[Q ''q1'' 1, Q ''q2'' 1, Q ''q3'' 1, Q ''q4'' 1, Q ''q5'' 1],
         [Q ''q1'' 1, Q ''q2'' 1, Q ''q3'' 1, Q ''q4'' 1, Q ''q5'' 1],
         [Q ''q1'' 1, Q ''q2'' 1, Q ''q3'' 1, Q ''q4'' 1, Q ''q5'' 1],
         [Q ''q1'' 1, Q ''q2'' 1, Q ''q3'' 1, Q ''q4'' 1, Q ''q5'' 1],
         [Q ''q1'' 1, Q ''q2'' 1, Q ''q3'' 1, Q ''q4'' 1, Q ''q5'' 1]]),
      (''advanced'',
        [[Q ''q1'' 1, Q ''q2'' 1, Q ''q3'' 1, Q ''q4'' 1],
         [Q ''q1'' 1, Q ''q2'' 1, Q ''q3'' 1, Q ''q4'' 1],
         [Q ''q1'' 1, Q ''q2'' 1, Q ''q3'' 1, Q ''q4'' 1]])]"

definition ux_designer_quizzes :: "(string \<times> quiz list) list" where
  "ux_designer_quizzes =
     [(''basic'',
        [[Q ''q1'' 0, Q ''q2'' 1, Q ''q3'' 1, Q ''q4'' 1, Q ''q5'' 1, Q ''q6'' 1],
         [Q ''q1'' 1, Q ''q2'' 1, Q ''q3'' 1, Q ''q4'' 1, Q ''q5'' 1, Q ''q6'' 1],
         [Q ''q1'' 1, Q ''q2'' 1, Q ''q3'' 1, Q ''q4'' 1, Q ''q5'' 1, Q ''q6'' 1],
         [Q ''q1'' 1, Q ''q2'' 1, Q ''q3'' 1, Q ''q4'' 1, Q ''q5'' 1, Q ''q6'' 1],
         [Q ''q1'' 1, Q ''q2'' 1, Q ''q3'' 1, Q ''q4'' 1, Q ''q5'' 1, Q ''q6'' 1]]),
      (''intermediate'',
        [[Q ''q1'' 1, Q ''q2'' 1, Q ''q3'' 1, Q ''q4'' 1, Q ''q5'' 1],
         [Q ''q1'' 1, Q ''q2'' 1, Q ''q3'' 1, Q ''q4'' 1, Q ''q5'' 1],
         [Q ''q1'' 1, Q ''q2'' 1, Q ''q3'' 1, Q ''q4'' 1, Q ''q5'' 1],
         [Q ''q1'' 1, Q ''q2'' 1, Q ''q3'' 1, Q ''q4'' 1, Q ''q5'' 1],
         [Q ''q1'' 1, Q ''q2'' 1, Q ''q3'' 1, Q ''q4'' 1, Q ''q5'' 1]]),
      (''advanced'',
        [[Q ''q1'' 1, Q ''q2'' 1, Q ''q3'' 1, Q ''q4'' 1],
         [Q ''q1'' 1, Q ''q2'' 1, Q ''q3'' 1, Q ''q4'' 1],
         [Q ''q1'' 1, Q ''q2'' 1, Q ''q3'' 1, Q ''q4'' 1]])]"

definition product_manager_quizzes :: "(string \<times> quiz list) list" where
  "product_manager_quizzes =
     [(''basic'',
        [[Q ''q1'' 1, Q ''q2'' 1, Q ''q3'' 1, Q ''q4'' 1, Q ''q5'' 1, Q ''q6'' 1],
         [Q ''q1'' 1, Q ''q2'' 1, Q ''q3'' 1, Q ''q4'' 1, Q ''q5'' 1, Q ''q6'' 1],
         [Q ''q1'' 1, Q ''q2'' 1, Q ''q3'' 1, Q ''q4'' 1, Q ''q5'' 1, Q ''q6'' 1],
         [Q ''q1'' 1, Q ''q2'' 1, Q ''q3'' 1, Q ''q4'' 1, Q ''q5'' 1, Q ''q6'' 1],
         [Q ''q1'' 1, Q ''q2'' 1, Q ''q3'' 1, Q ''q4'' 1, Q ''q5'' 1, Q ''q6'' 1]]),
      (''intermediate'',
        [[Q ''q1'' 1, Q ''q2'' 1, Q ''q3'' 1, Q ''q4'' 1, Q ''q5'' 1],
         [Q ''q1'' 1, Q ''q2'' 1, Q ''q3'' 1, Q ''q4'' 1, Q ''q5'' 1],
         [Q ''q1'' 1, Q ''q2'' 1, Q ''q3'' 1, Q ''q4'' 1, Q ''q5'' 1],
         [Q ''q1'' 1, Q ''q2'' 1, Q ''q3'' 1, Q ''q4'' 1, Q ''q5'' 1],
         [Q ''q1'' 1, Q ''q2'' 1, Q ''q3'' 1, Q ''q4'' 1, Q ''q5'' 1]]),
      (''advanced'',
        [[Q ''q1'' 1, Q ''q2'' 1, Q ''q3'' 1, Q ''q4'' 1],
         [Q ''q1'' 1, Q ''q2'' 1, Q ''q3'' 1, Q ''q4'' 1],
         [Q ''q1'' 1, Q ''q2'' 1, Q ''q3'' 1, Q ''q4'' 1]])]"

definition quizzes :: "(string \<times> (string \<times> quiz list) list) list" where
  "quizzes =
     [(''teacher'', teacher_quizzes),
      (''software engineer'', software_engineer_quizzes),
      (''data analyst'', data_analyst_quizzes),
      (''ux designer'', ux_designer_quizzes),
      (''product manager'', product_manager_quizzes)]"

definition default_quiz :: quiz where
  "default_quiz = [Q ''q1'' 0, Q ''q2'' 0, Q ''q3'' 1, Q ''q4'' 1, Q ''q5'' 1]"

text \<open>
  \<^verbatim>\<open>quiz_list[(variant - 1) % len(quiz_list)]\<close>; Python's \<^verbatim>\<open>%\<close> with a positive divisor is
  \<open>mod\<close> on \<open>int\<close>. No list of the table is empty.
\<close>

definition pick_variant :: "quiz list \<Rightarrow> int \<Rightarrow> quiz" where
  "pick_variant quiz_list variant = quiz_list ! nat ((variant - 1) mod int (length quiz_list))"

definition sample_quiz :: "string \<Rightarrow> string \<Rightarrow> int \<Rightarrow> quiz" where
  "sample_quiz role0 level0 variant0 =
     (let role = lower (if role0 = [] then ''default'' else role0);
          lvl = lower (if level0 = [] then ''basic'' else level0);
          variant = (if variant0 = 0 then 1 else variant0);
          role_key = (case List.find (\<lambda>key. str_in key role \<or> str_in role key) (map fst quizzes) of
                        None \<Rightarrow> role | Some key \<Rightarrow> key)
      in case map_of quizzes role_key of
           Some levels \<Rightarrow>
             (case map_of levels lvl of
                Some quiz_list \<Rightarrow> pick_variant quiz_list variant
              | None \<Rightarrow>
                  (case levels of
                     (first_level, quiz_list) # rest \<Rightarrow> pick_variant quiz_list variant
                   | [] \<Rightarrow> default_quiz))
         | None \<Rightarrow> default_quiz)"

definition get_quiz_for_activity :: "string \<Rightarrow> world \<Rightarrow> (activity \<times> quiz) option" where
  "get_quiz_for_activity activity_id w =
     (case List.find (\<lambda>a. a_activityId a = activity_id)
             (get_list (s_activities (read_store (store_file w)))) of
        None \<Rightarrow> None
      | Some a \<Rightarrow>
          let role = (case a_role a of None \<Rightarrow> ''default'' | Some r \<Rightarrow> if r = [] then ''default'' else r);
              lvl = (case a_level a of None \<Rightarrow> ''basic'' | Some l \<Rightarrow> if l = [] then ''basic'' else l);
              variant = (case a_quizVariant a of None \<Rightarrow> 1 | Some v \<Rightarrow> v)
          in Some (a, sample_quiz role lvl variant))"

text \<open>
  \<^verbatim>\<open>grade_quiz\<close>. The answers map sends a question id to the integer that \<^verbatim>\<open>int(...)\<close>
  returns on the submitted value. The result is the pair of \<^verbatim>\<open>score\<close> and \<^verbatim>\<open>total\<close>.
\<close>

definition count_correct :: "(string \<rightharpoonup> int) \<Rightarrow> quiz \<Rightarrow> nat" where
  "count_correct answers_map questions =
     length (filter (\<lambda>q. answers_map (q_id q) = Some (q_answer q)) questions)"

definition grade_quiz ::
  "env \<Rightarrow> string \<Rightarrow> (string \<rightharpoonup> int) \<Rightarrow> world \<Rightarrow> (int \<times> nat) option \<times> world" where
  "grade_quiz e activity_id answers_map w =
     (case get_quiz_for_activity activity_id w of
        None \<Rightarrow> (None, w)
      | Some (act, questions) \<Rightarrow>
          let correct = count_correct answers_map questions;
              score = quiz_score correct (length questions);
              store = read_store (store_file w);
              persist = (\<lambda>a. if a_activityId a = activity_id
                              then a\<lparr>a_lastScore := Some score,
                                     a_status := Some (if score \<ge> 70 then ''completed'' else ''pending''),
                                     a_completedAt := Some (now e)\<rparr>
                              else a)
          in (Some (score, length questions),
              write_store (store\<lparr>s_activities := map_option (map persist) (s_activities store)\<rparr>) w))"

subsection \<open>Suggested activities for a role\<close>

record task =
  t_title :: string
  t_detail :: string

text \<open>
  The role is matched against the quiz roles: \<^verbatim>\<open>quiz_role.split()[0] in role or
  any(word in role for word in quiz_role.split())\<close>. Every quiz role has a first word.
\<close>

definition quiz_roles :: "string list" where
  "quiz_roles = [''teacher'', ''software engineer'', ''data analyst'', ''ux designer'',
                 ''product manager'', ''marketing'', ''graphic designer'']"

definition role_matches :: "string \<Rightarrow> string \<Rightarrow> bool" where
  "role_matches role quiz_role =
     ((case split quiz_role of [] \<Rightarrow> False | first_word # ws \<Rightarrow> str_in first_word role)
      \<or> list_ex (\<lambda>word. str_in word role) (split quiz_role))"

definition normalize_role :: "string \<Rightarrow> string" where
  "normalize_role role =
     (case List.find (role_matches role) quiz_roles of None \<Rightarrow> role | Some quiz_role \<Rightarrow> quiz_role)"

definition role_tasks :: "string \<Rightarrow> task list" where
  "role_tasks role =
     (if str_in ''teacher'' role then
        [\<lparr>t_title = ''Read curriculum guides'', t_detail = ''Study current curriculum standards for your grade''\<rparr>,
         \<lparr>t_title = ''Prepare 3 lesson plans'', t_detail = ''Create scaffolded lesson plans with assessments''\<rparr>,
         \<lparr>t_title = ''Join teacher forum'', t_detail = ''Participate in a local teacher community forum''\<rparr>]
      else if str_in ''data'' role \<or> str_in ''analyst'' role then
        [\<lparr>t_title = ''Learn SQL'', t_detail = ''Complete SQL exercises on filtering and aggregation''\<rparr>,
         \<lparr>t_title = ''Project: Data analysis'', t_detail = ''Analyze a dataset and publish findings''\<rparr>,
         \<lparr>t_title = ''Build portfolio'', t_detail = ''Create a GitHub repo with notebooks and visuals''\<rparr>]
      else if str_in ''ux'' role \<or> str_in ''designer'' role \<or> str_in ''graphic'' role then
        [\<lparr>t_title = ''User research'', t_detail = ''Run a small user interview study''\<rparr>,
         \<lparr>t_title = ''Design case study'', t_detail = ''Document a design process and outcomes''\<rparr>,
         \<lparr>t_title = ''Prototype'', t_detail = ''Build a clickable prototype in Figma''\<rparr>]
      else if str_in ''software'' role \<or> str_in ''engineer'' role \<or> str_in ''developer'' role
              \<or> str_in ''programmer'' role then
        [\<lparr>t_title = ''Build a project'', t_detail = ''Create a full-stack application''\<rparr>,
         \<lparr>t_title = ''Contribute to open source'', t_detail = ''Submit PRs to an open source project''\<rparr>,
         \<lparr>t_title = ''System design'', t_detail = ''Practice architecture and scalability design''\<rparr>]
      else if str_in ''product'' role \<or> str_in ''manager'' role \<or> str_in ''pm'' role then
        [\<lparr>t_title = ''Define product strategy'', t_detail = ''Create a product strategy document''\<rparr>,
         \<lparr>t_title = ''Build roadmap'', t_detail = ''Develop a prioritized product roadmap''\<rparr>,
         \<lparr>t_title = ''User research'', t_detail = ''Conduct interviews and user surveys''\<rparr>]
      else if str_in ''market'' role \<or> str_in ''seo'' role then
        [\<lparr>t_title = ''Content strategy'', t_detail = ''Plan a content marketing calendar''\<rparr>,
         \<lparr>t_title = ''Campaign analysis'', t_detail = ''Analyze metrics and ROI of campaigns''\<rparr>,
         \<lparr>t_title = ''Build audience'', t_detail = ''Grow social media presence or email list''\<rparr>]
      else if str_in ''doctor'' role \<or> str_in ''nurse'' role \<or> str_in ''medical'' role
              \<or> str_in ''healthcare'' role then
        [\<lparr>t_title = ''Study medical protocols'', t_detail = ''Learn current treatment guidelines''\<rparr>,
         \<lparr>t_title = ''Case study analysis'', t_detail = ''Analyze and present clinical case studies''\<rparr>,
         \<lparr>t_title = ''Patient care simulation'', t_detail = ''Participate in training scenarios''\<rparr>]
      else if str_in ''account'' role \<or> str_in ''finance'' role \<or> str_in ''cfo'' role
              \<or> str_in ''analyst'' role then
        [\<lparr>t_title = ''Financial modeling'', t_detail = ''Build spreadsheet models for forecasting''\<rparr>,
         \<lparr>t_title = ''Audit preparation'', t_detail = ''Learn audit and compliance procedures''\<rparr>,
         \<lparr>t_title = ''Tax planning'', t_detail = ''Study tax strategies and regulations''\<rparr>]
      else if (str_in ''engineer'' role \<and> str_in ''civil'' role) \<or> str_in ''mechanical'' role
              \<or> str_in ''electrical'' role then
        [\<lparr>t_title = ''CAD design'', t_detail = ''Create engineering drawings and models''\<rparr>,
         \<lparr>t_title = ''Project analysis'', t_detail = ''Analyze structural and systems requirements''\<rparr>,
         \<lparr>t_title = ''Technical documentation'', t_detail = ''Write specifications and technical reports''\<rparr>]
      else
        [\<lparr>t_title = ''Foundational reading'',
          t_detail = ''Read key resources about '' @ (if role = [] then ''target'' else role)\<rparr>,
         \<lparr>t_title = ''Mini project'', t_detail = ''Complete a small project relevant to your goal''\<rparr>,
         \<lparr>t_title = ''Join community'', t_detail = ''Find an online community for mentorship''\<rparr>])"

text \<open>
  \<^verbatim>\<open>tasks[level_idx] if level_idx < len(tasks) else tasks[-1] if tasks else {...}\<close>
\<close>

definition task_for :: "task list \<Rightarrow> nat \<Rightarrow> task" where
  "task_for tasks level_idx =
     (if level_idx < length tasks then tasks ! level_idx
      else if tasks \<noteq> [] then last tasks
      else \<lparr>t_title = ''Practice'', t_detail = ''Continue learning''\<rparr>)"

text \<open>
  The activity made for the level at \<open>level_idx\<close> and the quiz number \<open>quiz_num\<close>; it is
  the \<open>(5 * level_idx + quiz_num - 1)\<close>-th call of \<^verbatim>\<open>uuid4\<close> since the method began.
\<close>

definition new_activity ::
  "env \<Rightarrow> nat \<Rightarrow> string \<Rightarrow> string \<Rightarrow> task list \<Rightarrow> nat \<times> string \<Rightarrow> nat \<Rightarrow> activity" where
  "new_activity e n0 user_id role_normalized tasks lv quiz_num =
     (let task = task_for tasks (fst lv)
      in \<lparr>a_activityId = uuid_src e (n0 + 5 * fst lv + (quiz_num - 1)),
          a_userId = user_id,
          a_title = t_title task @ '' - Quiz '' @ str_nat quiz_num,
          a_detail = t_detail task,
          a_level = Some (snd lv),
          a_role = Some role_normalized,
          a_quizVariant = Some (int quiz_num),
          a_status = Some ''pending'',
          a_createdAt = now e,
          a_lastScore = None,
          a_completedAt = None\<rparr>)"

definition create_activities_for_role ::
  "env \<Rightarrow> string \<Rightarrow> string option \<Rightarrow> world \<Rightarrow> activity list \<times> world" where
  "create_activities_for_role e user_id role0 w =
     (let role = lower (case role0 of None \<Rightarrow> [] | Some r \<Rightarrow> r);
          role_normalized = normalize_role role;
          tasks = role_tasks role;
          store = read_store (store_file w);
          activities = get_list (s_activities store);
          activities = filter (\<lambda>a. \<not> (a_userId a = user_id \<and> a_status a = Some ''pending'')) activities;
          created = concat (map (\<lambda>lv. map (new_activity e (uuid_n w) user_id role_normalized tasks lv)
                                          [1..<6])
                              (enumerate 0 [''basic'', ''intermediate'', ''advanced'']));
          activities = activities @ created;
          w1 = w\<lparr>uuid_n := uuid_n w + 15\<rparr>
      in (filter (\<lambda>a. a_userId a = user_id) activities,
          write_store (store\<lparr>s_activities := Some activities\<rparr>) w1))"

subsection \<open>Reading the persisted state\<close>

text \<open>The collections as a later call sees them (\<^verbatim>\<open>store.get(key, [])\<close> after \<^verbatim>\<open>_read_store\<close>).\<close>

definition users_of :: "world \<Rightarrow> user list" where
  "users_of w = get_list (s_users (read_store (store_file w)))"

definition activities_of :: "world \<Rightarrow> activity list" where
  "activities_of w = get_list (s_activities (read_store (store_file w)))"

definition notifications_of :: "world \<Rightarrow> notification list" where
  "notifications_of w = get_list (s_notifications (read_store (store_file w)))"

text \<open>
  The persisted gamification values of a user, with the defaults that the code applies
  when it reads them: \<^verbatim>\<open>.get('xp', 0)\<close>, \<^verbatim>\<open>.get('level', 1)\<close>, \<^verbatim>\<open>.get('badges', [])\<close>,
  \<^verbatim>\<open>.get('streak', 0)\<close>, \<^verbatim>\<open>.get('count', 0)\<close>.
\<close>

definition stored_gamification :: "string \<Rightarrow> world \<Rightarrow> gamification option" where
  "stored_gamification user_id w =
     (case get_user user_id w of None \<Rightarrow> None | Some u \<Rightarrow> u_gamification u)"

definition stored_xp :: "string \<Rightarrow> world \<Rightarrow> int" where
  "stored_xp user_id w =
     (case stored_gamification user_id w of
        None \<Rightarrow> 0
      | Some g \<Rightarrow> (case g_xp g of None \<Rightarrow> 0 | Some x \<Rightarrow> x))"

definition stored_level :: "string \<Rightarrow> world \<Rightarrow> int" where
  "stored_level user_id w =
     (case stored_gamification user_id w of
        None \<Rightarrow> 1
      | Some g \<Rightarrow> (case g_level g of None \<Rightarrow> 1 | Some l \<Rightarrow> l))"

definition stored_badges :: "string \<Rightarrow> world \<Rightarrow> badge list" where
  "stored_badges user_id w =
     (case stored_gamification user_id w of None \<Rightarrow> [] | Some g \<Rightarrow> get_list (g_badges g))"

definition stored_streak :: "string \<Rightarrow> world \<Rightarrow> int" where
  "stored_streak user_id w =
     (case stored_gamification user_id w of
        None \<Rightarrow> 0
      | Some g \<Rightarrow> (case g_streak g of None \<Rightarrow> 0 | Some n \<Rightarrow> n))"

definition stored_referral_count :: "string \<Rightarrow> world \<Rightarrow> int" where
  "stored_referral_count user_id w =
     (case get_user user_id w of
        None \<Rightarrow> 0
      | Some u \<Rightarrow> (case u_referrals u of
                    None \<Rightarrow> 0
                  | Some r \<Rightarrow> (case r_count r of None \<Rightarrow> 0 | Some n \<Rightarrow> n)))"

text \<open>The score as the specification words it: \<open>round(100 \<times> correct / total)\<close>.\<close>

definition spec_score :: "nat \<Rightarrow> nat \<Rightarrow> int" where
  "spec_score correct n = round (100 * (of_nat correct :: rat) / of_nat n)"

subsection \<open>Example states\<close>

text \<open>Concrete inputs on which the theorems below are run.\<close>

definition ex_env :: env where
  "ex_env = \<lparr>now = ''2024-05-02T08:00:00'', utc_day = 738643, local_day = 738643,
             uuid_src = (\<lambda>k. ''uuid-'' @ str_nat k), ddb_put_ok = False\<rparr>"

definition ex_activity :: "string \<Rightarrow> string \<Rightarrow> string \<Rightarrow> activity" where
  "ex_activity aid uid st =
     \<lparr>a_activityId = aid, a_userId = uid, a_title = ''Build a project - Quiz 1'',
      a_detail = ''Create a full-stack application'',
      a_level = Some ''basic'', a_role = Some ''software engineer'', a_quizVariant = Some 1,
      a_status = Some st, a_createdAt = ''2024-05-01T08:00:00'', a_lastScore = None,
      a_completedAt = None\<rparr>"

definition ex_world_acts :: world where
  "ex_world_acts =
     \<lparr>store_file = Stored \<lparr>s_users = Some [], s_roadmaps = Some [],
         s_activities = Some [ex_activity ''a1'' ''u1'' ''pending'',
                              ex_activity ''a2'' ''u1'' ''completed'',
                              ex_activity ''a3'' ''u2'' ''pending''],
         s_notifications = None, s_other = []\<rparr>, uuid_n = 0\<rparr>"

definition ex_user :: "string \<Rightarrow> gamification option \<Rightarrow> user" where
  "ex_user uid g =
     \<lparr>u_userId = uid, u_email = Some (uid @ ''@example.org''), u_passwordHash = Some ''pbkdf2'',
      u_profile = Some (JObj []), u_createdAt = Some ''2024-05-01T08:00:00'', u_updatedAt = None,
      u_gamification = g, u_referrals = None, u_extra = []\<rparr>"

definition ex_gamification :: "int \<Rightarrow> int \<Rightarrow> int \<Rightarrow> int option \<Rightarrow> gamification" where
  "ex_gamification x l s d =
     \<lparr>g_xp = Some x, g_level = Some l, g_badges = Some [], g_streak = Some s,
      g_lastLoginDate = d, g_achievements = Some []\<rparr>"

definition ex_world_users :: "user list \<Rightarrow> world" where
  "ex_world_users us =
     \<lparr>store_file = Stored \<lparr>s_users = Some us, s_roadmaps = Some [], s_activities = None,
                           s_notifications = None, s_other = []\<rparr>, uuid_n = 0\<rparr>"

definition stored_last_login :: "string \<Rightarrow> world \<Rightarrow> int option" where
  "stored_last_login user_id w =
     (case stored_gamification user_id w of None \<Rightarrow> None | Some g \<Rightarrow> g_lastLoginDate g)"

definition ex_referrer :: user where
  "ex_referrer =
     (ex_user ''u1'' (Some (ex_gamification 50 1 0 None)))
       \<lparr>u_referrals := Some \<lparr>r_code = Some ''AB12CD34'', r_count = Some 0, r_rewards = []\<rparr>\<rparr>"

definition ex_world_referral :: world where
  "ex_world_referral = ex_world_users [ex_referrer, ex_user ''u2'' (Some (ex_gamification 0 1 0 None))]"

definition ex_item :: "string \<Rightarrow> json \<Rightarrow> user" where
  "ex_item uid p =
     \<lparr>u_userId = uid, u_email = None, u_passwordHash = None, u_profile = Some p,
      u_createdAt = None, u_updatedAt = Some ''2024-05-02T08:00:00'',
      u_gamification = None, u_referrals = None, u_extra = []\<rparr>"

definition ex_user_profile :: "string \<Rightarrow> json \<Rightarrow> user" where
  "ex_user_profile uid p = (ex_user uid None)\<lparr>u_profile := Some p\<rparr>"

definition ex_answers_all :: "string \<rightharpoonup> int" where
  "ex_answers_all = map_of [(''q1'', 0), (''q2'', 1), (''q3'', 0), (''q4'', 1), (''q5'', 1), (''q6'', 1)]"

definition ex_answers_four :: "string \<rightharpoonup> int" where
  "ex_answers_four = map_of [(''q1'', 0), (''q2'', 1), (''q3'', 0), (''q4'', 1), (''q5'', 0)]"

section \<open>Properties\<close>

subsection \<open>Auxiliary facts\<close>

lemma get_list_simps [simp]: "get_list None = []" "get_list (Some xs) = xs"
  by (simp_all add: get_list_def)

text \<open>
  Replacing the record of one user, as every method does before it writes
  (\<^verbatim>\<open>users = [u for u in users if u.get('userId') != user_id]; users.append(user)\<close>), and
  reading it back with \<^verbatim>\<open>get_user\<close>.
\<close>

lemma replace_user_find:
  "u_userId u' = uid \<Longrightarrow>
   List.find (\<lambda>u. u_userId u = uid) (filter (\<lambda>u. u_userId u \<noteq> uid) us @ [u']) = Some u'"
  by (induction us) auto

lemma find_userId: "List.find (\<lambda>u. u_userId u = uid) us = Some u \<Longrightarrow> u_userId u = uid"
  by (induction us) (auto split: if_splits)

lemma get_user_userId: "get_user uid w = Some u \<Longrightarrow> u_userId u = uid"
  unfolding get_user_def by (rule find_userId)

lemma get_user_write_store:
  "u_userId u' = uid \<Longrightarrow>
   get_user uid (write_store (st\<lparr>s_users := Some (filter (\<lambda>u. u_userId u \<noteq> uid) us @ [u'])\<rparr>) w1) = Some u'"
  by (simp add: get_user_def write_store_def replace_user_find)

text \<open>The example store with the single user \<open>u1\<close>.\<close>

lemma ex_get_user:
  "get_user ''u1'' (ex_world_users [ex_user ''u1'' g]) = Some (ex_user ''u1'' g)"
  by (simp add: get_user_def ex_world_users_def ex_user_def)

lemma ex_stored_xp:
  "stored_xp ''u1'' (ex_world_users [ex_user ''u1'' (Some (ex_gamification x l s d))]) = x"
  by (simp add: stored_xp_def stored_gamification_def ex_get_user)
     (simp add: ex_user_def ex_gamification_def)

subsection \<open>Reading a missing or unparseable file\<close>

text \<open>
  C8. When the file is missing or cannot be parsed, \<^verbatim>\<open>_read_store\<close> does not fail: it
  returns the minimal document, in which the collections \<^verbatim>\<open>users\<close> and \<^verbatim>\<open>roadmaps\<close> are
  defined and empty, and every other collection reads as empty.
\<close>

theorem read_store_missing_or_unparseable:
  "read_store Missing =
     \<lparr>s_users = Some [], s_roadmaps = Some [], s_activities = None,
      s_notifications = None, s_other = []\<rparr>
   \<and> read_store Unparseable = read_store Missing
   \<and> users_of \<lparr>store_file = Missing, uuid_n = k\<rparr> = []
   \<and> activities_of \<lparr>store_file = Missing, uuid_n = k\<rparr> = []
   \<and> notifications_of \<lparr>store_file = Missing, uuid_n = k\<rparr> = []"
  by (simp add: empty_store_def users_of_def activities_of_def notifications_of_def)

subsection \<open>Signing up with an email that is already stored\<close>

text \<open>
  C6. \<^verbatim>\<open>create_user\<close> never rejects an email. It removes every stored user record with
  that email, keeps the other records in their order and appends the new record, so
  afterwards exactly one record carries the email: the new one.
\<close>

theorem create_user_overwrites_email:
  "users_of (snd (create_user e email password profile w))
     = filter (\<lambda>u. u_email u \<noteq> Some email) (users_of w)
       @ [fst (create_user e email password profile w)]
   \<and> filter (\<lambda>u. u_email u = Some email) (users_of (snd (create_user e email password profile w)))
     = [fst (create_user e email password profile w)]
   \<and> u_email (fst (create_user e email password profile w)) = Some email
   \<and> u_passwordHash (fst (create_user e email password profile w)) = Some password"
  by (simp add: create_user_def new_uuid_def write_store_def Let_def users_of_def)

subsection \<open>Completing an activity\<close>

text \<open>
  C10. \<^verbatim>\<open>complete_activity\<close>: when no activity record matches both the user id and the
  activity id, the call returns \<open>False\<close> and writes nothing, so the state is the one it
  started from. When a record matches, the call returns \<open>True\<close>, every matching record
  has status \<^verbatim>\<open>completed\<close> afterwards and the other records are as before.
\<close>

theorem complete_activity_atomic:
  "(\<not> list_ex (\<lambda>a. a_userId a = user_id \<and> a_activityId a = activity_id) (activities_of w)
      \<longrightarrow> complete_activity e user_id activity_id w = (False, w))
   \<and> (list_ex (\<lambda>a. a_userId a = user_id \<and> a_activityId a = activity_id) (activities_of w)
      \<longrightarrow> fst (complete_activity e user_id activity_id w) = True
          \<and> activities_of (snd (complete_activity e user_id activity_id w))
              = map (\<lambda>a. if a_userId a = user_id \<and> a_activityId a = activity_id
                         then a\<lparr>a_status := Some ''completed'', a_completedAt := Some (now e)\<rparr>
                         else a) (activities_of w)
          \<and> list_all (\<lambda>a. a_userId a = user_id \<and> a_activityId a = activity_id
                             \<longrightarrow> a_status a = Some ''completed'')
                (activities_of (snd (complete_activity e user_id activity_id w))))"
proof -
  let ?hit = "\<lambda>a. a_userId a = user_id \<and> a_activityId a = activity_id"
  let ?upd = "\<lambda>a. if ?hit a then a\<lparr>a_status := Some ''completed'', a_completedAt := Some (now e)\<rparr> else a"
  have miss: "\<not> list_ex ?hit (activities_of w) \<Longrightarrow> complete_activity e user_id activity_id w = (False, w)"
    by (simp add: complete_activity_def Let_def activities_of_def)
  have hit: "list_ex ?hit (activities_of w) \<Longrightarrow>
      complete_activity e user_id activity_id w
        = (True, write_store (read_store (store_file w)\<lparr>s_activities := Some (map ?upd (activities_of w))\<rparr>) w)"
    by (simp add: complete_activity_def Let_def activities_of_def)
  have all: "list_all (\<lambda>a. ?hit a \<longrightarrow> a_status a = Some ''completed'') (map ?upd xs)" for xs :: "activity list"
    by (induction xs) (simp, simp, blast)
  have res: "activities_of (snd (complete_activity e user_id activity_id w)) = map ?upd (activities_of w)"
    if "list_ex ?hit (activities_of w)"
    using hit [OF that] by (simp add: activities_of_def write_store_def)
  show ?thesis
  proof (intro conjI impI)
    assume "\<not> list_ex ?hit (activities_of w)"
    then show "complete_activity e user_id activity_id w = (False, w)" by (rule miss)
  next
    assume "list_ex ?hit (activities_of w)"
    then show "fst (complete_activity e user_id activity_id w) = True" using hit by simp
  next
    assume "list_ex ?hit (activities_of w)"
    then show "activities_of (snd (complete_activity e user_id activity_id w)) = map ?upd (activities_of w)"
      by (rule res)
  next
    assume h: "list_ex ?hit (activities_of w)"
    show "list_all (\<lambda>a. ?hit a \<longrightarrow> a_status a = Some ''completed'')
            (activities_of (snd (complete_activity e user_id activity_id w)))"
      unfolding res [OF h] by (rule all)
  qed
qed

theorem complete_activity_atomic_witness:
  "complete_activity ex_env ''u1'' ''a3'' ex_world_acts = (False, ex_world_acts)
   \<and> fst (complete_activity ex_env ''u2'' ''a3'' ex_world_acts) = True
   \<and> map a_status (activities_of (snd (complete_activity ex_env ''u2'' ''a3'' ex_world_acts)))
       = [Some ''pending'', Some ''completed'', Some ''completed'']"
proof -
  have acts: "activities_of ex_world_acts
      = [ex_activity ''a1'' ''u1'' ''pending'', ex_activity ''a2'' ''u1'' ''completed'',
         ex_activity ''a3'' ''u2'' ''pending'']"
    by (simp add: ex_world_acts_def activities_of_def)
  have miss: "\<not> list_ex (\<lambda>a. a_userId a = ''u1'' \<and> a_activityId a = ''a3'') (activities_of ex_world_acts)"
    unfolding acts by (simp add: ex_activity_def)
  have hit: "list_ex (\<lambda>a. a_userId a = ''u2'' \<and> a_activityId a = ''a3'') (activities_of ex_world_acts)"
    unfolding acts by (simp add: ex_activity_def)
  have r1: "complete_activity ex_env ''u1'' ''a3'' ex_world_acts = (False, ex_world_acts)"
    using complete_activity_atomic [of "''u1''" "''a3''" ex_world_acts ex_env] miss by blast
  have r2: "fst (complete_activity ex_env ''u2'' ''a3'' ex_world_acts) = True
     \<and> activities_of (snd (complete_activity ex_env ''u2'' ''a3'' ex_world_acts))
          = map (\<lambda>a. if a_userId a = ''u2'' \<and> a_activityId a = ''a3''
                     then a\<lparr>a_status := Some ''completed'', a_completedAt := Some (now ex_env)\<rparr>
                     else a) (activities_of ex_world_acts)"
    using complete_activity_atomic [of "''u2''" "''a3''" ex_world_acts ex_env] hit by blast
  have r3: "map a_status (activities_of (snd (complete_activity ex_env ''u2'' ''a3'' ex_world_acts)))
       = [Some ''pending'', Some ''completed'', Some ''completed'']"
    using r2 unfolding acts by (simp add: ex_activity_def)
  show ?thesis using r1 r2 r3 by blast
qed

subsection \<open>Regenerating the activities of a user\<close>

lemma upt_1_6: "[1..<6] = [1, 2, 3, 4, 5::nat]" "[Suc 0..<6] = [1, 2, 3, 4, 5::nat]"
  by (simp_all add: upt_rec [of _ 6])

lemma new_activity_fields:
  "a_userId (new_activity e n0 uid r ts lv q) = uid"
  "a_status (new_activity e n0 uid r ts lv q) = Some ''pending''"
  "a_level (new_activity e n0 uid r ts lv q) = Some (snd lv)"
  "a_quizVariant (new_activity e n0 uid r ts lv q) = Some (int q)"
  "a_role (new_activity e n0 uid r ts lv q) = Some r"
  "a_activityId (new_activity e n0 uid r ts lv q) = uuid_src e (n0 + 5 * fst lv + (q - 1))"
  by (simp_all add: new_activity_def Let_def)

lemma filter_kept_others:
  assumes "\<And>a. a \<in> set cs \<Longrightarrow> a_userId a = uid \<and> a_status a = Some ''pending''"
  shows "filter (\<lambda>a. a_userId a \<noteq> uid)
           (filter (\<lambda>a. \<not> (a_userId a = uid \<and> a_status a = Some ''pending'')) xs @ cs)
         = filter (\<lambda>a. a_userId a \<noteq> uid) xs"
    and "filter (\<lambda>a. a_userId a = uid \<and> a_status a = Some ''completed'')
           (filter (\<lambda>a. \<not> (a_userId a = uid \<and> a_status a = Some ''pending'')) xs @ cs)
         = filter (\<lambda>a. a_userId a = uid \<and> a_status a = Some ''completed'') xs"
    and "filter (\<lambda>a. a_userId a = uid \<and> a_status a = Some ''pending'')
           (filter (\<lambda>a. \<not> (a_userId a = uid \<and> a_status a = Some ''pending'')) xs @ cs)
         = cs"
proof -
  have c1: "filter (\<lambda>a. a_userId a \<noteq> uid) cs = []"
    using assms by (simp add: filter_empty_conv)
  have c2: "filter (\<lambda>a. a_userId a = uid \<and> a_status a = Some ''completed'') cs = []"
    using assms by (auto simp add: filter_empty_conv)
  have c3: "filter (\<lambda>a. a_userId a = uid \<and> a_status a = Some ''pending'') cs = cs"
    using assms by (simp add: filter_id_conv)
  have x1: "filter (\<lambda>a. a_userId a \<noteq> uid)
              (filter (\<lambda>a. \<not> (a_userId a = uid \<and> a_status a = Some ''pending'')) xs)
            = filter (\<lambda>a. a_userId a \<noteq> uid) xs"
    by (induction xs) auto
  have x2: "filter (\<lambda>a. a_userId a = uid \<and> a_status a = Some ''completed'')
              (filter (\<lambda>a. \<not> (a_userId a = uid \<and> a_status a = Some ''pending'')) xs)
            = filter (\<lambda>a. a_userId a = uid \<and> a_status a = Some ''completed'') xs"
    by (induction xs) auto
  have x3: "filter (\<lambda>a. a_userId a = uid \<and> a_status a = Some ''pending'')
              (filter (\<lambda>a. \<not> (a_userId a = uid \<and> a_status a = Some ''pending'')) xs) = []"
    by (induction xs) auto
  show "filter (\<lambda>a. a_userId a \<noteq> uid)
           (filter (\<lambda>a. \<not> (a_userId a = uid \<and> a_status a = Some ''pending'')) xs @ cs)
         = filter (\<lambda>a. a_userId a \<noteq> uid) xs"
    by (simp only: filter_append c1 x1 append_Nil2)
  show "filter (\<lambda>a. a_userId a = uid \<and> a_status a = Some ''completed'')
           (filter (\<lambda>a. \<not> (a_userId a = uid \<and> a_status a = Some ''pending'')) xs @ cs)
         = filter (\<lambda>a. a_userId a = uid \<and> a_status a = Some ''completed'') xs"
    by (simp only: filter_append c2 x2 append_Nil2)
  show "filter (\<lambda>a. a_userId a = uid \<and> a_status a = Some ''pending'')
           (filter (\<lambda>a. \<not> (a_userId a = uid \<and> a_status a = Some ''pending'')) xs @ cs)
         = cs"
    by (simp only: filter_append c3 x3 append_Nil)
qed

text \<open>
C9. \<^verbatim>\<open>create_activities_for_role\<close> appends exactly 15 activity records: 3 levels times
  5 quiz variants, each owned by the user and with status \<^verbatim>\<open>pending\<close>. The user's prior
  pending activities are removed (the user's pending activities afterwards are the 15 new
  ones), the user's completed activities are kept, and the activities of every other user
  are unchanged.
\<close>

theorem create_activities_for_role_effect:
  "\<exists>created.
     activities_of (snd (create_activities_for_role e user_id role w))
       = filter (\<lambda>a. \<not> (a_userId a = user_id \<and> a_status a = Some ''pending'')) (activities_of w)
         @ created
   \<and> length created = 15
   \<and> filter (\<lambda>a. a_userId a = user_id \<and> a_status a = Some ''pending'') created = created
   \<and> map (\<lambda>a. (a_level a, a_quizVariant a)) created
       = [(Some ''basic'', Some 1), (Some ''basic'', Some 2), (Some ''basic'', Some 3),
          (Some ''basic'', Some 4), (Some ''basic'', Some 5),
          (Some ''intermediate'', Some 1), (Some ''intermediate'', Some 2),
          (Some ''intermediate'', Some 3), (Some ''intermediate'', Some 4),
          (Some ''intermediate'', Some 5),
          (Some ''advanced'', Some 1), (Some ''advanced'', Some 2), (Some ''advanced'', Some 3),
          (Some ''advanced'', Some 4), (Some ''advanced'', Some 5)]
   \<and> filter (\<lambda>a. a_userId a = user_id \<and> a_status a = Some ''pending'')
        (activities_of (snd (create_activities_for_role e user_id role w))) = created
   \<and> filter (\<lambda>a. a_userId a = user_id \<and> a_status a = Some ''completed'')
        (activities_of (snd (create_activities_for_role e user_id role w)))
       = filter (\<lambda>a. a_userId a = user_id \<and> a_status a = Some ''completed'') (activities_of w)
   \<and> filter (\<lambda>a. a_userId a \<noteq> user_id)
        (activities_of (snd (create_activities_for_role e user_id role w)))
       = filter (\<lambda>a. a_userId a \<noteq> user_id) (activities_of w)"
proof -
  define r where "r = lower (case role of None \<Rightarrow> [] | Some x \<Rightarrow> x)"
  define cs where "cs = concat (map (\<lambda>lv. map (new_activity e (uuid_n w) user_id (normalize_role r) (role_tasks r) lv) [1..<6])
                              (enumerate 0 [''basic'', ''intermediate'', ''advanced'']))"
  have new: "activities_of (snd (create_activities_for_role e user_id role w))
       = filter (\<lambda>a. \<not> (a_userId a = user_id \<and> a_status a = Some ''pending'')) (activities_of w) @ cs"
    by (simp add: create_activities_for_role_def Let_def activities_of_def write_store_def cs_def r_def)
  have len: "length cs = 15"
    by (simp add: cs_def upt_1_6)
  have own: "a_userId a = user_id \<and> a_status a = Some ''pending''" if "a \<in> set cs" for a
    using that by (auto simp add: cs_def new_activity_fields)
  have lv: "map (\<lambda>a. (a_level a, a_quizVariant a)) cs
       = [(Some ''basic'', Some 1), (Some ''basic'', Some 2), (Some ''basic'', Some 3),
          (Some ''basic'', Some 4), (Some ''basic'', Some 5),
          (Some ''intermediate'', Some 1), (Some ''intermediate'', Some 2),
          (Some ''intermediate'', Some 3), (Some ''intermediate'', Some 4),
          (Some ''intermediate'', Some 5),
          (Some ''advanced'', Some 1), (Some ''advanced'', Some 2), (Some ''advanced'', Some 3),
          (Some ''advanced'', Some 4), (Some ''advanced'', Some 5)]"
    by (simp add: cs_def upt_1_6 new_activity_fields)
  have all: "filter (\<lambda>a. a_userId a = user_id \<and> a_status a = Some ''pending'') cs = cs"
    using own by (simp add: filter_id_conv)
  note k = filter_kept_others [of cs user_id "activities_of w", OF own]
  show ?thesis
    by (rule exI [of _ cs]) (simp only: new len lv all k)
qed

theorem create_activities_for_role_effect_witness:
  "length (activities_of (snd (create_activities_for_role ex_env ''u1'' (Some ''Teacher'') ex_world_acts))) = 17
   \<and> filter (\<lambda>a. a_userId a = ''u1'' \<and> a_status a = Some ''completed'')
        (activities_of (snd (create_activities_for_role ex_env ''u1'' (Some ''Teacher'') ex_world_acts)))
       = [ex_activity ''a2'' ''u1'' ''completed'']
   \<and> filter (\<lambda>a. a_userId a \<noteq> ''u1'')
        (activities_of (snd (create_activities_for_role ex_env ''u1'' (Some ''Teacher'') ex_world_acts)))
       = [ex_activity ''a3'' ''u2'' ''pending'']"
proof -
  have acts: "activities_of ex_world_acts
      = [ex_activity ''a1'' ''u1'' ''pending'', ex_activity ''a2'' ''u1'' ''completed'',
         ex_activity ''a3'' ''u2'' ''pending'']"
    by (simp add: ex_world_acts_def activities_of_def)
  have kept: "filter (\<lambda>a. \<not> (a_userId a = ''u1'' \<and> a_status a = Some ''pending'')) (activities_of ex_world_acts)
      = [ex_activity ''a2'' ''u1'' ''completed'', ex_activity ''a3'' ''u2'' ''pending'']"
    unfolding acts by (simp add: ex_activity_def)
  have f1: "filter (\<lambda>a. a_userId a = ''u1'' \<and> a_status a = Some ''completed'') (activities_of ex_world_acts)
      = [ex_activity ''a2'' ''u1'' ''completed'']"
    unfolding acts by (simp add: ex_activity_def)
  have f2: "filter (\<lambda>a. a_userId a \<noteq> ''u1'') (activities_of ex_world_acts)
      = [ex_activity ''a3'' ''u2'' ''pending'']"
    unfolding acts by (simp add: ex_activity_def)
  from create_activities_for_role_effect [of ex_env "''u1''" "Some ''Teacher''" ex_world_acts]
  show ?thesis
    unfolding kept f1 f2 by auto
qed

subsection \<open>Awarding XP\<close>

lemma award_xp_result:
  assumes "get_user uid w = Some u"
  shows "\<exists>g. fst (award_xp e uid amount w) = Some g
           \<and> stored_gamification uid (snd (award_xp e uid amount w)) = Some g
           \<and> g_xp g = Some (stored_xp uid w + amount)
           \<and> g_level g = Some ((stored_xp uid w + amount) div 100 + 1)"
proof -
  have uid: "u_userId u = uid" using assms by (rule get_user_userId)
  show ?thesis
    using assms uid
    by (simp add: award_xp_def Let_def stored_gamification_def stored_xp_def get_user_write_store
             split: option.splits)
qed

lemma award_xp_level_up_draws_uuid:
  assumes "get_user uid w = Some u"
      and "stored_level uid w < (stored_xp uid w + amount) div 100 + 1"
  shows "uuid_n (snd (award_xp e uid amount w)) = Suc (uuid_n w)"
  using assms
  by (cases "u_gamification u")
     (auto simp add: award_xp_def Let_def stored_level_def stored_xp_def stored_gamification_def
                     create_notification_def new_uuid_def write_store_def
           split: option.splits)

text \<open>
  The notifications that \<^verbatim>\<open>award_xp\<close> leaves in the file are those from before the call:
  the record that \<^verbatim>\<open>create_notification\<close> appends on a level-up is written to the file and
  then overwritten by the final \<^verbatim>\<open>_write_store(store)\<close>, whose \<open>store\<close> was read first.
\<close>

lemma award_xp_notifications_overwritten:
  "notifications_of (snd (award_xp e user_id amount w)) = notifications_of w"
  by (simp add: award_xp_def Let_def notifications_of_def write_store_def split: option.splits)

text \<open>
  C3. What \<^verbatim>\<open>award_xp\<close> does for an existing user. The persisted xp after the call is the
  xp before plus the amount, so it does not decrease when the amount is not negative, and
  the persisted level is \<open>floor(xp / 100) + 1\<close> of the new xp. When the new level is above
  the stored one, \<^verbatim>\<open>create_notification\<close> runs (it draws one uuid); the persisted
  notifications after the call, however, are those from before the call, because the
  final \<^verbatim>\<open>_write_store(store)\<close> writes the snapshot that was read before the notification
  was stored.
\<close>

theorem award_xp_effect:
  assumes "get_user user_id w = Some u"
  shows "stored_xp user_id (snd (award_xp e user_id amount w)) = stored_xp user_id w + amount
       \<and> stored_level user_id (snd (award_xp e user_id amount w))
           = stored_xp user_id (snd (award_xp e user_id amount w)) div 100 + 1
       \<and> (0 \<le> amount \<longrightarrow>
            stored_xp user_id w \<le> stored_xp user_id (snd (award_xp e user_id amount w)))
       \<and> (stored_level user_id w < stored_level user_id (snd (award_xp e user_id amount w)) \<longrightarrow>
            uuid_n (snd (award_xp e user_id amount w)) = Suc (uuid_n w))
       \<and> notifications_of (snd (award_xp e user_id amount w)) = notifications_of w"
proof -
  from award_xp_result [OF assms, where e = e and amount = amount] obtain g where
    g: "stored_gamification user_id (snd (award_xp e user_id amount w)) = Some g"
       "g_xp g = Some (stored_xp user_id w + amount)"
       "g_level g = Some ((stored_xp user_id w + amount) div 100 + 1)"
    by blast
  have xp: "stored_xp user_id (snd (award_xp e user_id amount w)) = stored_xp user_id w + amount"
    by (simp add: stored_xp_def [of user_id "snd (award_xp e user_id amount w)"] g)
  have lv: "stored_level user_id (snd (award_xp e user_id amount w))
              = (stored_xp user_id w + amount) div 100 + 1"
    by (simp add: stored_level_def [of user_id "snd (award_xp e user_id amount w)"] g)
  have up: "uuid_n (snd (award_xp e user_id amount w)) = Suc (uuid_n w)"
    if "stored_level user_id w < stored_level user_id (snd (award_xp e user_id amount w))"
    using assms that unfolding lv by (rule award_xp_level_up_draws_uuid)
  show ?thesis
    using xp lv up award_xp_notifications_overwritten [of e user_id amount w] by simp
qed

lemma ex_stored_level:
  "stored_level ''u1'' (ex_world_users [ex_user ''u1'' (Some (ex_gamification x l s d))]) = l"
  by (simp add: stored_level_def stored_gamification_def ex_get_user)
     (simp add: ex_user_def ex_gamification_def)

lemma ex_world_users_fresh:
  "notifications_of (ex_world_users us) = []"
  "uuid_n (ex_world_users us) = 0"
  by (simp_all add: notifications_of_def ex_world_users_def)

theorem award_xp_effect_witness:
  "stored_xp ''u1'' (snd (award_xp ex_env ''u1'' 150
       (ex_world_users [ex_user ''u1'' (Some (ex_gamification 50 1 0 None))]))) = 200
   \<and> stored_level ''u1'' (ex_world_users [ex_user ''u1'' (Some (ex_gamification 50 1 0 None))]) = 1
   \<and> stored_level ''u1'' (snd (award_xp ex_env ''u1'' 150
       (ex_world_users [ex_user ''u1'' (Some (ex_gamification 50 1 0 None))]))) = 3
   \<and> uuid_n (snd (award_xp ex_env ''u1'' 150
       (ex_world_users [ex_user ''u1'' (Some (ex_gamification 50 1 0 None))]))) = 1
   \<and> notifications_of (snd (award_xp ex_env ''u1'' 150
       (ex_world_users [ex_user ''u1'' (Some (ex_gamification 50 1 0 None))]))) = []"
  using award_xp_effect [where e = ex_env and amount = 150,
          OF ex_get_user [of "Some (ex_gamification 50 1 0 None)"]]
  by (simp add: ex_stored_xp ex_stored_level ex_world_users_fresh)

subsection \<open>Awarding a badge\<close>

lemma award_badge_existing:
  assumes "get_user uid w = Some u"
      and "list_ex (\<lambda>b. b_name b = badge_name) (stored_badges uid w)"
  shows "award_badge e uid badge_name icon descr w = (False, w)"
  using assms
  by (simp add: award_badge_def Let_def stored_badges_def stored_gamification_def
           split: option.splits)

lemma award_badge_new:
  assumes "get_user uid w = Some u"
      and "\<not> list_ex (\<lambda>b. b_name b = badge_name) (stored_badges uid w)"
  shows "fst (award_badge e uid badge_name icon descr w) = True
       \<and> get_user uid (snd (award_badge e uid badge_name icon descr w)) \<noteq> None
       \<and> map b_name (stored_badges uid (snd (award_badge e uid badge_name icon descr w)))
           = map b_name (stored_badges uid w) @ [badge_name]
       \<and> stored_xp uid (snd (award_badge e uid badge_name icon descr w)) = stored_xp uid w
       \<and> stored_level uid (snd (award_badge e uid badge_name icon descr w)) = stored_level uid w"
proof -
  have uid: "u_userId u = uid" using assms(1) by (rule get_user_userId)
  show ?thesis
    using assms uid
    by (simp add: award_badge_def Let_def stored_badges_def stored_gamification_def stored_xp_def
                  stored_level_def get_user_write_store split: option.splits)
qed

text \<open>
C2. What the code does when the same badge is awarded twice to an existing user who
  does not hold it: the first call returns \<open>True\<close> and stores the badge, the second call
  returns \<open>False\<close> and changes nothing, so exactly one badge entry carries the name. The
  persisted xp, however, is the xp from before the first call: the +50 that \<^verbatim>\<open>award_xp\<close>
  wrote is overwritten when \<^verbatim>\<open>award_badge\<close> writes its own snapshot of the document with
  its own copy of the user record.
\<close>

theorem award_badge_twice:
  assumes "get_user user_id w = Some u"
      and "\<not> list_ex (\<lambda>b. b_name b = badge_name) (stored_badges user_id w)"
  shows "fst (award_badge e user_id badge_name icon descr w) = True
       \<and> award_badge e user_id badge_name icon descr (snd (award_badge e user_id badge_name icon descr w))
           = (False, snd (award_badge e user_id badge_name icon descr w))
       \<and> length (filter (\<lambda>b. b_name b = badge_name)
             (stored_badges user_id (snd (award_badge e user_id badge_name icon descr w)))) = 1
       \<and> stored_xp user_id (snd (award_badge e user_id badge_name icon descr w))
           = stored_xp user_id w"
proof -
  let ?w1 = "snd (award_badge e user_id badge_name icon descr w)"
  note n = award_badge_new [OF assms, of e icon descr]
  from n obtain u1 where u1: "get_user user_id ?w1 = Some u1" by blast
  have names: "map b_name (stored_badges user_id ?w1) = map b_name (stored_badges user_id w) @ [badge_name]"
    using n by blast
  have none: "filter (\<lambda>x. x = badge_name) (map b_name (stored_badges user_id w)) = []"
    using assms(2) by (auto simp add: list_ex_iff filter_empty_conv)
  have cnt: "length (filter (\<lambda>b. b_name b = badge_name) (stored_badges user_id ?w1)) = 1"
  proof -
    have "length (filter (\<lambda>b. b_name b = badge_name) (stored_badges user_id ?w1))
          = length (filter (\<lambda>x. x = badge_name) (map b_name (stored_badges user_id ?w1)))"
      by (simp add: filter_map comp_def)
    also have "\<dots> = 1" by (simp add: names none)
    finally show ?thesis .
  qed
  have ex: "list_ex (\<lambda>b. b_name b = badge_name) (stored_badges user_id ?w1)"
  proof -
    have "badge_name \<in> set (map b_name (stored_badges user_id ?w1))" by (simp add: names)
    then show ?thesis by (auto simp add: list_ex_iff)
  qed
  have second: "award_badge e user_id badge_name icon descr ?w1 = (False, ?w1)"
    using u1 ex by (rule award_badge_existing)
  show ?thesis using n second cnt by blast
qed

theorem award_badge_twice_witness:
  "fst (award_badge ex_env ''u1'' ''Getting Started'' [] None
          (ex_world_users [ex_user ''u1'' (Some (ex_gamification 50 1 0 None))])) = True
   \<and> fst (award_badge ex_env ''u1'' ''Getting Started'' [] None
          (snd (award_badge ex_env ''u1'' ''Getting Started'' [] None
             (ex_world_users [ex_user ''u1'' (Some (ex_gamification 50 1 0 None))])))) = False
   \<and> stored_xp ''u1'' (ex_world_users [ex_user ''u1'' (Some (ex_gamification 50 1 0 None))]) = 50
   \<and> stored_xp ''u1'' (snd (award_badge ex_env ''u1'' ''Getting Started'' [] None
          (ex_world_users [ex_user ''u1'' (Some (ex_gamification 50 1 0 None))]))) = 50"
proof -
  have nb: "\<not> list_ex (\<lambda>b. b_name b = ''Getting Started'')
     (stored_badges ''u1'' (ex_world_users [ex_user ''u1'' (Some (ex_gamification 50 1 0 None))]))"
    by (simp add: stored_badges_def stored_gamification_def ex_get_user)
       (simp add: ex_user_def ex_gamification_def)
  from award_badge_twice [where e = ex_env and icon = "[]" and descr = None,
         OF ex_get_user [of "Some (ex_gamification 50 1 0 None)"] nb]
  show ?thesis by (simp add: ex_stored_xp)
qed

subsection \<open>Login streaks\<close>

lemma streak_commit_stored:
  assumes "u_userId u = uid"
  shows "stored_gamification uid (snd (streak_commit e uid st u g w))
           = Some (g\<lparr>g_lastLoginDate := Some (utc_day e)\<rparr>)"
  using assms
  by (simp add: streak_commit_def Let_def stored_gamification_def get_user_write_store)

lemma update_streak_cases:
  assumes "get_user uid w = Some u"
  shows "stored_last_login uid w = Some (utc_day e) \<Longrightarrow> snd (update_streak e uid w) = w"
    and "stored_last_login uid w = Some d \<Longrightarrow> d \<noteq> utc_day e \<Longrightarrow> local_day e - d = 1 \<Longrightarrow>
           stored_streak uid (snd (update_streak e uid w)) = stored_streak uid w + 1"
    and "stored_last_login uid w = Some d \<Longrightarrow> d \<noteq> utc_day e \<Longrightarrow> local_day e - d > 1 \<Longrightarrow>
           stored_streak uid (snd (update_streak e uid w)) = 1"
    and "stored_last_login uid w = None \<Longrightarrow>
           stored_streak uid (snd (update_streak e uid w)) = 1"
    and "stored_badges uid (snd (update_streak e uid w)) = stored_badges uid w"
    and "stored_xp uid (snd (update_streak e uid w)) = stored_xp uid w"
proof -
  have uid: "u_userId u = uid" using assms by (rule get_user_userId)
  note sc = streak_commit_stored [OF uid]
  show "snd (update_streak e uid w) = w" if "stored_last_login uid w = Some (utc_day e)"
    using assms that
    by (cases "u_gamification u")
       (simp_all add: update_streak_def Let_def stored_last_login_def stored_gamification_def)
  show "stored_streak uid (snd (update_streak e uid w)) = stored_streak uid w + 1"
    if "stored_last_login uid w = Some d" "d \<noteq> utc_day e" "local_day e - d = 1"
    using assms that
    by (cases "u_gamification u") (auto simp add: update_streak_def Let_def stored_last_login_def stored_streak_def [of uid "snd _"] sc
                  stored_streak_def [of uid w] stored_gamification_def [of uid w] split: option.splits)
  show "stored_streak uid (snd (update_streak e uid w)) = 1"
    if "stored_last_login uid w = Some d" "d \<noteq> utc_day e" "local_day e - d > 1"
    using assms that
    by (cases "u_gamification u") (auto simp add: update_streak_def Let_def stored_last_login_def stored_streak_def [of uid "snd _"] sc
                  stored_gamification_def [of uid w] split: option.splits)
  show "stored_streak uid (snd (update_streak e uid w)) = 1"
    if "stored_last_login uid w = None"
    using assms that
    by (cases "u_gamification u") (auto simp add: update_streak_def Let_def stored_last_login_def stored_streak_def [of uid "snd _"] sc
                  stored_gamification_def [of uid w] split: option.splits)
  show "stored_badges uid (snd (update_streak e uid w)) = stored_badges uid w"
    using assms
    by (cases "u_gamification u") (auto simp add: update_streak_def Let_def stored_badges_def [of uid "snd _"] sc
                  stored_badges_def [of uid w] stored_gamification_def [of uid w] split: option.splits)
  show "stored_xp uid (snd (update_streak e uid w)) = stored_xp uid w"
    using assms
    by (cases "u_gamification u") (auto simp add: update_streak_def Let_def stored_xp_def [of uid "snd _"] sc
                  stored_xp_def [of uid w] stored_gamification_def [of uid w] split: option.splits)
qed

text \<open>
C4. What \<^verbatim>\<open>update_streak\<close> does for an existing user. When the stored last-login date
  is today's (UTC) date, nothing is written. Otherwise, with the stored date one day
  before the local date the persisted streak grows by 1; with a gap of more than one day
  it becomes 1; with no stored date it becomes 1. The persisted badges after the call,
  however, are the badges from before the call, also when the streak reaches 7, 30 or
  100: \<^verbatim>\<open>award_badge\<close> stores the badge, and the final write of \<^verbatim>\<open>update_streak\<close> replaces
  the user record by its own copy, which does not hold it.
\<close>

theorem update_streak_effect:
  assumes "get_user user_id w = Some u"
  shows "(stored_last_login user_id w = Some (utc_day e) \<longrightarrow> snd (update_streak e user_id w) = w)
       \<and> (\<forall>d. stored_last_login user_id w = Some d \<and> d \<noteq> utc_day e \<and> local_day e - d = 1
              \<longrightarrow> stored_streak user_id (snd (update_streak e user_id w))
                    = stored_streak user_id w + 1)
       \<and> (\<forall>d. stored_last_login user_id w = Some d \<and> d \<noteq> utc_day e \<and> local_day e - d > 1
              \<longrightarrow> stored_streak user_id (snd (update_streak e user_id w)) = 1)
       \<and> (stored_last_login user_id w = None
              \<longrightarrow> stored_streak user_id (snd (update_streak e user_id w)) = 1)
       \<and> stored_badges user_id (snd (update_streak e user_id w)) = stored_badges user_id w"
  using update_streak_cases [OF assms, where e = e] by blast

lemma ex_stored_streak:
  "stored_streak ''u1'' (ex_world_users [ex_user ''u1'' (Some (ex_gamification x l s d))]) = s"
  "stored_last_login ''u1'' (ex_world_users [ex_user ''u1'' (Some (ex_gamification x l s d))]) = d"
  "stored_badges ''u1'' (ex_world_users [ex_user ''u1'' (Some (ex_gamification x l s d))]) = []"
  "stored_last_login ''u1'' (ex_world_users [ex_user ''u1'' None]) = None"
  by (simp_all add: stored_streak_def stored_last_login_def stored_badges_def
                    stored_gamification_def ex_get_user)
     (simp_all add: ex_user_def ex_gamification_def)

lemma ex_env_days: "utc_day ex_env = 738643" "local_day ex_env = 738643"
  by (simp_all add: ex_env_def)

theorem update_streak_effect_witness:
  "stored_streak ''u1'' (snd (update_streak ex_env ''u1''
       (ex_world_users [ex_user ''u1'' (Some (ex_gamification 50 1 6 (Some 738642)))]))) = 7
   \<and> stored_badges ''u1'' (snd (update_streak ex_env ''u1''
       (ex_world_users [ex_user ''u1'' (Some (ex_gamification 50 1 6 (Some 738642)))]))) = []
   \<and> snd (update_streak ex_env ''u1''
       (ex_world_users [ex_user ''u1'' (Some (ex_gamification 50 1 6 (Some 738643)))]))
       = ex_world_users [ex_user ''u1'' (Some (ex_gamification 50 1 6 (Some 738643)))]
   \<and> stored_streak ''u1'' (snd (update_streak ex_env ''u1''
       (ex_world_users [ex_user ''u1'' (Some (ex_gamification 50 1 6 (Some 738640)))]))) = 1
   \<and> stored_streak ''u1'' (snd (update_streak ex_env ''u1''
       (ex_world_users [ex_user ''u1'' None]))) = 1"
  using update_streak_effect [where e = ex_env,
          OF ex_get_user [of "Some (ex_gamification 50 1 6 (Some 738642))"]]
        update_streak_effect [where e = ex_env,
          OF ex_get_user [of "Some (ex_gamification 50 1 6 (Some 738643))"]]
        update_streak_effect [where e = ex_env,
          OF ex_get_user [of "Some (ex_gamification 50 1 6 (Some 738640))"]]
        update_streak_effect [where e = ex_env, OF ex_get_user [of None]]
  by (simp add: ex_stored_streak ex_env_days)

subsection \<open>Using a referral code\<close>

lemma find_other_user:
  "u_userId u' = rid \<Longrightarrow> nid \<noteq> rid \<Longrightarrow>
   List.find (\<lambda>u. u_userId u = nid) (filter (\<lambda>u. u_userId u \<noteq> rid) us @ [u'])
     = List.find (\<lambda>u. u_userId u = nid) us"
  by (induction us) auto

lemma get_user_write_store_other:
  "u_userId u' = rid \<Longrightarrow> nid \<noteq> rid \<Longrightarrow>
   get_user nid (write_store (read_store (store_file w)\<lparr>s_users := Some (filter (\<lambda>u. u_userId u \<noteq> rid)
                     (get_list (s_users (read_store (store_file w)))) @ [u'])\<rparr>) w1)
     = get_user nid w"
  by (simp add: get_user_def write_store_def find_other_user)

lemma find_has_code:
  "List.find (has_code c) us = Some ru \<Longrightarrow> \<exists>r. u_referrals ru = Some r \<and> r_code r = Some c"
  by (induction us) (auto simp add: has_code_def split: if_splits option.splits)

lemma use_referral_code_invalid:
  "List.find (has_code (upper referral_code)) (users_of w) = None \<Longrightarrow>
   use_referral_code e new_user_id referral_code w = (False, w)"
  by (simp add: use_referral_code_def Let_def users_of_def)

lemma use_referral_code_valid:
  assumes f: "List.find (has_code (upper referral_code)) (users_of w) = Some ru"
      and g: "get_user (u_userId ru) w = Some ru"
      and n: "new_user_id \<noteq> u_userId ru"
  shows "fst (use_referral_code e new_user_id referral_code w) = True"
    and "stored_referral_count (u_userId ru) (snd (use_referral_code e new_user_id referral_code w))
           = stored_referral_count (u_userId ru) w + 1"
    and "stored_xp (u_userId ru) (snd (use_referral_code e new_user_id referral_code w))
           = stored_xp (u_userId ru) w"
    and "stored_xp new_user_id (snd (use_referral_code e new_user_id referral_code w))
           = stored_xp new_user_id w"
proof -
  from find_has_code [OF f] obtain r where r: "u_referrals ru = Some r" by blast
  have f': "List.find (has_code (upper referral_code)) (get_list (s_users (read_store (store_file w)))) = Some ru"
    using f by (simp add: users_of_def)
  show "fst (use_referral_code e new_user_id referral_code w) = True"
    by (simp add: use_referral_code_def Let_def f' r)
  show "stored_referral_count (u_userId ru) (snd (use_referral_code e new_user_id referral_code w))
           = stored_referral_count (u_userId ru) w + 1"
    by (simp add: use_referral_code_def Let_def f' r stored_referral_count_def g get_user_write_store)
  show "stored_xp (u_userId ru) (snd (use_referral_code e new_user_id referral_code w))
           = stored_xp (u_userId ru) w"
    by (simp add: use_referral_code_def Let_def f' r stored_xp_def stored_gamification_def g
                  get_user_write_store)
  show "stored_xp new_user_id (snd (use_referral_code e new_user_id referral_code w))
           = stored_xp new_user_id w"
    using n
    by (simp add: use_referral_code_def Let_def f' r stored_xp_def stored_gamification_def
                  get_user_write_store_other)
qed

lemma ex_upper: "upper ''ab12cd34'' = ''AB12CD34''"
  by code_simp

lemma ex_upper_bad: "upper ''nocode'' = ''NOCODE''"
  by code_simp

text \<open>
C7. What \<^verbatim>\<open>use_referral_code\<close> does. With a code that no user holds it returns \<open>False\<close>
  and the state is unchanged. With a code held by a user (the record stored under its
  id) it returns \<open>True\<close> and the persisted referral count of the referrer grows by 1. The
  persisted xp of the referrer and of the referee, however, are the values from before
  the call: the two \<^verbatim>\<open>award_xp\<close> calls write +100 and +50, and the final write of
  \<^verbatim>\<open>use_referral_code\<close> puts back the snapshot of the document taken at entry.
\<close>

theorem use_referral_code_effect:
  "(List.find (has_code (upper referral_code)) (users_of w) = None
      \<longrightarrow> use_referral_code e new_user_id referral_code w = (False, w))
   \<and> (\<forall>ru. List.find (has_code (upper referral_code)) (users_of w) = Some ru
             \<and> get_user (u_userId ru) w = Some ru \<and> new_user_id \<noteq> u_userId ru
      \<longrightarrow> fst (use_referral_code e new_user_id referral_code w) = True
          \<and> stored_referral_count (u_userId ru) (snd (use_referral_code e new_user_id referral_code w))
              = stored_referral_count (u_userId ru) w + 1
          \<and> stored_xp (u_userId ru) (snd (use_referral_code e new_user_id referral_code w))
              = stored_xp (u_userId ru) w
          \<and> stored_xp new_user_id (snd (use_referral_code e new_user_id referral_code w))
              = stored_xp new_user_id w)"
  using use_referral_code_invalid [of referral_code w e new_user_id]
        use_referral_code_valid [of referral_code w _ new_user_id e]
  by blast

lemma ex_referral_users:
  "users_of ex_world_referral = [ex_referrer, ex_user ''u2'' (Some (ex_gamification 0 1 0 None))]"
  "u_userId ex_referrer = ''u1''"
  "get_user ''u1'' ex_world_referral = Some ex_referrer"
  "has_code ''AB12CD34'' ex_referrer"
  "\<not> has_code ''NOCODE'' ex_referrer"
  "\<not> has_code ''NOCODE'' (ex_user ''u2'' g)"
  by (simp_all add: ex_world_referral_def ex_world_users_def users_of_def get_user_def
                    ex_referrer_def ex_user_def has_code_def)

lemma ex_referral_stored:
  "stored_referral_count ''u1'' ex_world_referral = 0"
  "stored_xp ''u1'' ex_world_referral = 50"
  "stored_xp ''u2'' ex_world_referral = 0"
  by (simp_all add: stored_referral_count_def stored_xp_def stored_gamification_def get_user_def
                    ex_world_referral_def ex_world_users_def ex_referrer_def ex_user_def
                    ex_gamification_def)

theorem use_referral_code_effect_witness:
  "fst (use_referral_code ex_env ''u2'' ''ab12cd34'' ex_world_referral) = True
   \<and> stored_referral_count ''u1'' (snd (use_referral_code ex_env ''u2'' ''ab12cd34'' ex_world_referral)) = 1
   \<and> stored_xp ''u1'' ex_world_referral = 50
   \<and> stored_xp ''u1'' (snd (use_referral_code ex_env ''u2'' ''ab12cd34'' ex_world_referral)) = 50
   \<and> stored_xp ''u2'' ex_world_referral = 0
   \<and> stored_xp ''u2'' (snd (use_referral_code ex_env ''u2'' ''ab12cd34'' ex_world_referral)) = 0
   \<and> use_referral_code ex_env ''u2'' ''nocode'' ex_world_referral = (False, ex_world_referral)"
proof -
  have hit: "List.find (has_code (upper ''ab12cd34'')) (users_of ex_world_referral) = Some ex_referrer"
    by (simp add: ex_upper ex_referral_users)
  have miss: "List.find (has_code (upper ''nocode'')) (users_of ex_world_referral) = None"
    by (simp add: ex_upper_bad ex_referral_users)
  have g: "get_user (u_userId ex_referrer) ex_world_referral = Some ex_referrer"
    by (simp add: ex_referral_users)
  have n: "''u2'' \<noteq> u_userId ex_referrer"
    by (simp add: ex_referral_users)
  from use_referral_code_effect [of "''ab12cd34''" ex_world_referral ex_env "''u2''"] hit g n
  have valid: "fst (use_referral_code ex_env ''u2'' ''ab12cd34'' ex_world_referral) = True
     \<and> stored_referral_count (u_userId ex_referrer) (snd (use_referral_code ex_env ''u2'' ''ab12cd34'' ex_world_referral))
         = stored_referral_count (u_userId ex_referrer) ex_world_referral + 1
     \<and> stored_xp (u_userId ex_referrer) (snd (use_referral_code ex_env ''u2'' ''ab12cd34'' ex_world_referral))
         = stored_xp (u_userId ex_referrer) ex_world_referral
     \<and> stored_xp ''u2'' (snd (use_referral_code ex_env ''u2'' ''ab12cd34'' ex_world_referral))
         = stored_xp ''u2'' ex_world_referral"
    by blast
  from use_referral_code_effect [of "''nocode''" ex_world_referral ex_env "''u2''"] miss
  have invalid: "use_referral_code ex_env ''u2'' ''nocode'' ex_world_referral = (False, ex_world_referral)"
    by blast
  show ?thesis
    using valid invalid by (simp add: ex_referral_users ex_referral_stored)
qed

subsection \<open>Saving a partial profile\<close>

lemma map_of_fold_update:
  "distinct (map fst e) \<Longrightarrow>
   map_of (fold (\<lambda>kv acc. AList.update (fst kv) (snd kv) acc) e d) = map_of d ++ map_of e"
proof (induction e arbitrary: d)
  case Nil
  then show ?case by simp
next
  case (Cons kv e)
  have notin: "fst kv \<notin> dom (map_of e)"
    using Cons.prems by (simp add: dom_map_of_conv_image_fst)
  have "map_of (fold (\<lambda>kv acc. AList.update (fst kv) (snd kv) acc) (kv # e) d)
        = map_of (AList.update (fst kv) (snd kv) d) ++ map_of e"
    using Cons by simp
  also have "\<dots> = (map_of d)(fst kv \<mapsto> snd kv) ++ map_of e"
    by (simp add: update_conv')
  also have "\<dots> = map_of d ++ map_of (kv # e)"
    using notin by (cases kv) (auto simp add: map_add_def fun_eq_iff split: option.splits)
  finally show ?case .
qed

lemma dict_update_map_of:
  "distinct (map fst e) \<Longrightarrow> map_of (dict_update d e) = map_of d ++ map_of e"
  unfolding dict_update_def by (rule map_of_fold_update)

lemma save_user_profile_stored:
  assumes "\<not> ddb_put_ok e"
      and "filter (\<lambda>u. u_userId u = u_userId item) (users_of w) = [ex]"
      and "u_profile ex = Some (JObj old_profile)"
      and "u_profile item = Some (JObj new_profile)"
  shows "get_user (u_userId item) (snd (save_user_profile e item w))
           = Some ((merge_user ex item)\<lparr>u_profile := Some (JObj (dict_update old_profile new_profile))\<rparr>)"
  using assms
  by (simp add: save_user_profile_def Let_def users_of_def get_user_write_store merge_user_def)

text \<open>
C5, as amended. When the update goes to the file (no DynamoDB put has succeeded), the
  user is stored once and both the stored record and the submitted item hold a dict under
  \<^verbatim>\<open>profile\<close>, the stored profile afterwards is \<^verbatim>\<open>old.update(new)\<close>: a key of the submitted
  profile has the submitted value, whatever that value is, and a key that the submitted
  profile omits keeps its stored value. The merge is one level deep: a nested mapping
  under a submitted key is replaced, not merged (see the counterexample). Credentials that
  the item omits are kept.
\<close>

theorem save_user_profile_merges_profile_keys:
  assumes "\<not> ddb_put_ok e"
      and "filter (\<lambda>u. u_userId u = u_userId item) (users_of w) = [ex]"
      and "u_profile ex = Some (JObj old_profile)"
      and "u_profile item = Some (JObj new_profile)"
      and "distinct (map fst new_profile)"
  shows "\<exists>merged p.
           get_user (u_userId item) (snd (save_user_profile e item w)) = Some merged
         \<and> u_profile merged = Some (JObj p)
         \<and> p = dict_update old_profile new_profile
         \<and> map_of p = map_of old_profile ++ map_of new_profile
         \<and> u_email merged = or_else (u_email item) (u_email ex)
         \<and> u_passwordHash merged = or_else (u_passwordHash item) (u_passwordHash ex)
         \<and> u_createdAt merged = or_else (u_createdAt item) (u_createdAt ex)"
proof -
  let ?m = "(merge_user ex item)\<lparr>u_profile := Some (JObj (dict_update old_profile new_profile))\<rparr>"
  have "get_user (u_userId item) (snd (save_user_profile e item w)) = Some ?m"
    using assms(1-4) by (rule save_user_profile_stored)
  moreover have "map_of (dict_update old_profile new_profile) = map_of old_profile ++ map_of new_profile"
    using assms(5) by (rule dict_update_map_of)
  ultimately show ?thesis
    by (simp add: merge_user_def)
qed

lemma ex_first_save:
  "users_of (snd (save_user_profile ex_env (ex_item ''u1'' (JObj [(''a'', JInt 1)]))
       (ex_world_users [ex_user ''u1'' None])))
     = [ex_user_profile ''u1'' (JObj [(''a'', JInt 1)])\<lparr>u_updatedAt := Some ''2024-05-02T08:00:00''\<rparr>]"
  by (simp add: save_user_profile_def Let_def ex_env_def ex_world_users_def ex_user_def
                ex_item_def ex_user_profile_def merge_user_def or_else_def dict_update_def
                write_store_def users_of_def)

theorem save_user_profile_merges_profile_keys_witness:
  "\<exists>merged.
     get_user ''u1''
       (snd (save_user_profile ex_env (ex_item ''u1'' (JObj [(''b'', JInt 2)]))
          (snd (save_user_profile ex_env (ex_item ''u1'' (JObj [(''a'', JInt 1)]))
             (ex_world_users [ex_user ''u1'' None]))))) = Some merged
   \<and> u_profile merged = Some (JObj [(''a'', JInt 1), (''b'', JInt 2)])
   \<and> u_email merged = Some ''u1@example.org''"
proof -
  let ?w1 = "snd (save_user_profile ex_env (ex_item ''u1'' (JObj [(''a'', JInt 1)]))
               (ex_world_users [ex_user ''u1'' None]))"
  let ?ex = "ex_user_profile ''u1'' (JObj [(''a'', JInt 1)])\<lparr>u_updatedAt := Some ''2024-05-02T08:00:00''\<rparr>"
  have h1: "\<not> ddb_put_ok ex_env" by (simp add: ex_env_def)
  have h2: "filter (\<lambda>u. u_userId u = u_userId (ex_item ''u1'' (JObj [(''b'', JInt 2)]))) (users_of ?w1) = [?ex]"
    unfolding ex_first_save by (simp add: ex_item_def ex_user_profile_def ex_user_def)
  have h3: "u_profile ?ex = Some (JObj [(''a'', JInt 1)])"
    by (simp add: ex_user_profile_def)
  have h4: "u_profile (ex_item ''u1'' (JObj [(''b'', JInt 2)])) = Some (JObj [(''b'', JInt 2)])"
    by (simp add: ex_item_def)
  have h5: "distinct (map fst [(''b'', JInt 2)])" by simp
  have id: "u_userId (ex_item ''u1'' (JObj [(''b'', JInt 2)])) = ''u1''" by (simp add: ex_item_def)
  from save_user_profile_merges_profile_keys [OF h1 h2 h3 h4 h5]
  show ?thesis
    unfolding id
    by (auto simp add: dict_update_def or_else_def ex_item_def ex_user_profile_def ex_user_def)
qed

text \<open>
  The claim as stated fails on a nested mapping: the stored profile holds an address with
  a city and a zip, the update holds an address with a city only. The stored address
  afterwards is the submitted one, without the zip; the deep merge of the specification
  keeps the zip.
\<close>

theorem save_user_profile_deep_merge_counterexample:
  "\<exists>merged.
     get_user ''u1''
       (snd (save_user_profile ex_env
               (ex_item ''u1'' (JObj [(''address'', JObj [(''city'', JStr ''Delhi'')])]))
               (ex_world_users
                  [ex_user_profile ''u1''
                     (JObj [(''address'', JObj [(''city'', JStr ''Pune''), (''zip'', JStr ''411001'')])])])))
       = Some merged
   \<and> u_profile merged = Some (JObj [(''address'', JObj [(''city'', JStr ''Delhi'')])])
   \<and> spec_deep_merge
         (JObj [(''address'', JObj [(''city'', JStr ''Pune''), (''zip'', JStr ''411001'')])])
         (JObj [(''address'', JObj [(''city'', JStr ''Delhi'')])])
       = JObj [(''address'', JObj [(''city'', JStr ''Delhi''), (''zip'', JStr ''411001'')])]
   \<and> u_profile merged
       \<noteq> Some (spec_deep_merge
             (JObj [(''address'', JObj [(''city'', JStr ''Pune''), (''zip'', JStr ''411001'')])])
             (JObj [(''address'', JObj [(''city'', JStr ''Delhi'')])]))"
proof -
  let ?old = "[(''address'', JObj [(''city'', JStr ''Pune''), (''zip'', JStr ''411001'')])]"
  let ?new = "[(''address'', JObj [(''city'', JStr ''Delhi'')])]"
  have h1: "\<not> ddb_put_ok ex_env" by (simp add: ex_env_def)
  have h2: "filter (\<lambda>u. u_userId u = u_userId (ex_item ''u1'' (JObj ?new)))
              (users_of (ex_world_users [ex_user_profile ''u1'' (JObj ?old)]))
            = [ex_user_profile ''u1'' (JObj ?old)]"
    by (simp add: users_of_def ex_world_users_def ex_item_def ex_user_profile_def ex_user_def)
  have h3: "u_profile (ex_user_profile ''u1'' (JObj ?old)) = Some (JObj ?old)"
    by (simp add: ex_user_profile_def)
  have h4: "u_profile (ex_item ''u1'' (JObj ?new)) = Some (JObj ?new)"
    by (simp add: ex_item_def)
  have id: "u_userId (ex_item ''u1'' (JObj ?new)) = ''u1''" by (simp add: ex_item_def)
  have dm: "spec_deep_merge (JObj ?old) (JObj ?new)
      = JObj [(''address'', JObj [(''city'', JStr ''Delhi''), (''zip'', JStr ''411001'')])]"
    by simp
  from save_user_profile_stored [OF h1 h2 h3 h4]
  show ?thesis
    unfolding id dm by (simp add: dict_update_def)
qed

subsection \<open>Grading a quiz\<close>

lemma quizzes_ok:
  "(rk, levels) \<in> set quizzes \<Longrightarrow> (lv, ql) \<in> set levels \<Longrightarrow>
   ql \<noteq> [] \<and> (\<forall>q \<in> set ql. length q = 4 \<or> length q = 5 \<or> length q = 6)"
  by (auto simp add: quizzes_def teacher_quizzes_def software_engineer_quizzes_def
        data_analyst_quizzes_def ux_designer_quizzes_def product_manager_quizzes_def)

lemma pick_variant_in: "ql \<noteq> [] \<Longrightarrow> pick_variant ql v \<in> set ql"
proof -
  assume ne: "ql \<noteq> []"
  then have pos: "0 < int (length ql)" by simp
  have "0 \<le> (v - 1) mod int (length ql)" "(v - 1) mod int (length ql) < int (length ql)"
    using pos by simp_all
  then have "nat ((v - 1) mod int (length ql)) < length ql" by linarith
  then show ?thesis by (simp add: pick_variant_def)
qed

lemma sample_quiz_length:
  "length (sample_quiz r l v) = 4 \<or> length (sample_quiz r l v) = 5 \<or> length (sample_quiz r l v) = 6"
proof -
  define role where "role = lower (if r = [] then ''default'' else r)"
  define lvl where "lvl = lower (if l = [] then ''basic'' else l)"
  define variant where "variant = (if v = 0 then 1 else v)"
  define role_key where "role_key = (case List.find (\<lambda>key. str_in key role \<or> str_in role key) (map fst quizzes) of
                        None \<Rightarrow> role | Some key \<Rightarrow> key)"
  have sq: "sample_quiz r l v =
     (case map_of quizzes role_key of
           Some levels \<Rightarrow>
             (case map_of levels lvl of
                Some quiz_list \<Rightarrow> pick_variant quiz_list variant
              | None \<Rightarrow>
                  (case levels of
                     (first_level, quiz_list) # rest \<Rightarrow> pick_variant quiz_list variant
                   | [] \<Rightarrow> default_quiz))
         | None \<Rightarrow> default_quiz)"
    unfolding sample_quiz_def Let_def role_def lvl_def variant_def role_key_def by (rule refl)
  have dq: "length default_quiz = 5" by (simp add: default_quiz_def)
  show ?thesis
  proof (cases "map_of quizzes role_key")
    case None
    then show ?thesis by (simp add: sq dq)
  next
    case (Some levels)
    then have in1: "(role_key, levels) \<in> set quizzes" by (rule map_of_SomeD)
    show ?thesis
    proof (cases "map_of levels lvl")
      case (Some ql)
      then have "(lvl, ql) \<in> set levels" by (rule map_of_SomeD)
      from quizzes_ok [OF in1 this] pick_variant_in [of ql variant]
      show ?thesis using \<open>map_of quizzes role_key = Some levels\<close> Some by (auto simp add: sq)
    next
      case None
      show ?thesis
      proof (cases levels)
        case Nil
        then show ?thesis using \<open>map_of quizzes role_key = Some levels\<close> None by (simp add: sq dq)
      next
        case (Cons p rest)
        obtain fl ql where p: "p = (fl, ql)" by (cases p)
        have "(fl, ql) \<in> set levels" using Cons p by simp
        from quizzes_ok [OF in1 this] pick_variant_in [of ql variant]
        show ?thesis using \<open>map_of quizzes role_key = Some levels\<close> None Cons p
          by (auto simp add: sq)
      qed
    qed
  qed
qed

lemma quiz_score_values_4:
  "map (\<lambda>c. quiz_score c 4) [0, 1, 2, 3, 4] = [0, 25, 50, 75, 100]"
  by code_simp

lemma quiz_score_values_5:
  "map (\<lambda>c. quiz_score c 5) [0, 1, 2, 3, 4, 5] = [0, 20, 40, 60, 80, 100]"
  by code_simp

lemma quiz_score_values_6:
  "map (\<lambda>c. quiz_score c 6) [0, 1, 2, 3, 4, 5, 6] = [0, 16, 33, 50, 66, 83, 100]"
  by code_simp

lemma quiz_score_floor_4: "c \<le> 4 \<Longrightarrow> quiz_score c 4 = (100 * int c) div 4"
proof -
  assume "c \<le> 4"
  then consider "c = 0" | "c = 1" | "c = 2" | "c = 3" | "c = 4" by linarith
  then show ?thesis using quiz_score_values_4 by cases simp_all
qed

lemma quiz_score_floor_5: "c \<le> 5 \<Longrightarrow> quiz_score c 5 = (100 * int c) div 5"
proof -
  assume "c \<le> 5"
  then consider "c = 0" | "c = 1" | "c = 2" | "c = 3" | "c = 4" | "c = 5" by linarith
  then show ?thesis using quiz_score_values_5 by cases simp_all
qed

lemma quiz_score_floor_6: "c \<le> 6 \<Longrightarrow> quiz_score c 6 = (100 * int c) div 6"
proof -
  assume "c \<le> 6"
  then consider "c = 0" | "c = 1" | "c = 2" | "c = 3" | "c = 4" | "c = 5" | "c = 6" by linarith
  then show ?thesis using quiz_score_values_6 by cases simp_all
qed

lemma quiz_score_floor:
  "n = 4 \<or> n = 5 \<or> n = 6 \<Longrightarrow> c \<le> n \<Longrightarrow> quiz_score c n = (100 * int c) div int n"
  using quiz_score_floor_4 [of c] quiz_score_floor_5 [of c] quiz_score_floor_6 [of c] by auto

lemma count_correct_le: "count_correct answers questions \<le> length questions"
  by (simp add: count_correct_def)

lemma count_correct_all:
  "(\<forall>q \<in> set questions. answers (q_id q) = Some (q_answer q)) \<Longrightarrow>
   count_correct answers questions = length questions"
  by (simp add: count_correct_def)

lemma count_correct_none:
  "(\<forall>q \<in> set questions. answers (q_id q) \<noteq> Some (q_answer q)) \<Longrightarrow>
   count_correct answers questions = 0"
  by (simp add: count_correct_def)

lemma get_quiz_for_activity_found:
  assumes "List.find (\<lambda>a. a_activityId a = activity_id) (activities_of w) = Some act"
  shows "\<exists>questions. get_quiz_for_activity activity_id w = Some (act, questions)
           \<and> (length questions = 4 \<or> length questions = 5 \<or> length questions = 6)"
  using assms sample_quiz_length
  by (simp add: get_quiz_for_activity_def activities_of_def Let_def)

lemma grade_quiz_found:
  assumes "get_quiz_for_activity activity_id w = Some (act, questions)"
  shows "fst (grade_quiz e activity_id answers w)
           = Some (quiz_score (count_correct answers questions) (length questions), length questions)"
    and "activities_of (snd (grade_quiz e activity_id answers w))
           = map (\<lambda>a. if a_activityId a = activity_id
                      then a\<lparr>a_lastScore := Some (quiz_score (count_correct answers questions) (length questions)),
                             a_status := Some (if quiz_score (count_correct answers questions) (length questions) \<ge> 70
                                               then ''completed'' else ''pending''),
                             a_completedAt := Some (now e)\<rparr>
                      else a) (activities_of w)"
proof -
  show "fst (grade_quiz e activity_id answers w)
           = Some (quiz_score (count_correct answers questions) (length questions), length questions)"
    using assms by (simp add: grade_quiz_def Let_def)
  have "List.find (\<lambda>a. a_activityId a = activity_id)
          (get_list (s_activities (read_store (store_file w)))) \<noteq> None"
    using assms by (auto simp add: get_quiz_for_activity_def split: option.splits)
  then have "s_activities (read_store (store_file w)) \<noteq> None"
    by (cases "s_activities (read_store (store_file w))") simp_all
  then obtain acts where "s_activities (read_store (store_file w)) = Some acts" by blast
  then show "activities_of (snd (grade_quiz e activity_id answers w))
           = map (\<lambda>a. if a_activityId a = activity_id
                      then a\<lparr>a_lastScore := Some (quiz_score (count_correct answers questions) (length questions)),
                             a_status := Some (if quiz_score (count_correct answers questions) (length questions) \<ge> 70
                                               then ''completed'' else ''pending''),
                             a_completedAt := Some (now e)\<rparr>
                      else a) (activities_of w)"
    using assms by (simp add: grade_quiz_def Let_def activities_of_def write_store_def)
qed

text \<open>
C1, as amended. For an activity id present in the store and any answers map,
  \<^verbatim>\<open>grade_quiz\<close> returns the score and the number of questions of the activity's quiz; the
  score is \<open>100 \<times> correct / total\<close> rounded down (the code truncates with \<^verbatim>\<open>int\<close>; on the
  quizzes of the table, which have 4, 5 or 6 questions, the two floating-point roundings
  before it do not change the result). Every activity record with that id gets the score
  as \<^verbatim>\<open>lastScore\<close> and the status \<^verbatim>\<open>completed\<close> if and only if the score is at least 70,
  \<^verbatim>\<open>pending\<close> otherwise; the other records are unchanged. When every question is answered
  with its correct index the score is 100, and when none is, it is 0.
\<close>

theorem grade_quiz_effect:
  assumes "List.find (\<lambda>a. a_activityId a = activity_id) (activities_of w) = Some act"
  shows "\<exists>questions score.
           get_quiz_for_activity activity_id w = Some (act, questions)
         \<and> fst (grade_quiz e activity_id answers_map w) = Some (score, length questions)
         \<and> score = (100 * int (count_correct answers_map questions)) div int (length questions)
         \<and> activities_of (snd (grade_quiz e activity_id answers_map w))
             = map (\<lambda>a. if a_activityId a = activity_id
                        then a\<lparr>a_lastScore := Some score,
                               a_status := Some (if score \<ge> 70 then ''completed'' else ''pending''),
                               a_completedAt := Some (now e)\<rparr>
                        else a) (activities_of w)
         \<and> ((\<forall>q \<in> set questions. answers_map (q_id q) = Some (q_answer q)) \<longrightarrow> score = 100)
         \<and> ((\<forall>q \<in> set questions. answers_map (q_id q) \<noteq> Some (q_answer q)) \<longrightarrow> score = 0)"
proof -
  from get_quiz_for_activity_found [OF assms] obtain questions where
    q: "get_quiz_for_activity activity_id w = Some (act, questions)"
    and len: "length questions = 4 \<or> length questions = 5 \<or> length questions = 6"
    by blast
  let ?c = "count_correct answers_map questions"
  let ?s = "quiz_score ?c (length questions)"
  have fl: "?s = (100 * int ?c) div int (length questions)"
    using len count_correct_le [of answers_map questions] by (rule quiz_score_floor)
  have pos: "0 < int (length questions)" using len by auto
  have all: "?s = 100" if h: "\<forall>q \<in> set questions. answers_map (q_id q) = Some (q_answer q)"
  proof -
    have "(100 * int ?c) div int (length questions) = 100"
      using pos by (simp add: count_correct_all [OF h])
    with fl show ?thesis by (rule trans)
  qed
  have none: "?s = 0" if h: "\<forall>q \<in> set questions. answers_map (q_id q) \<noteq> Some (q_answer q)"
  proof -
    have "(100 * int ?c) div int (length questions) = 0"
      by (simp add: count_correct_none [OF h])
    with fl show ?thesis by (rule trans)
  qed
  show ?thesis
    using q grade_quiz_found [OF q, of e answers_map] fl all none by blast
qed

lemma ex_quiz:
  "get_quiz_for_activity ''a3'' ex_world_acts
     = Some (ex_activity ''a3'' ''u2'' ''pending'',
             [Q ''q1'' 0, Q ''q2'' 1, Q ''q3'' 0, Q ''q4'' 1, Q ''q5'' 1, Q ''q6'' 1])"
  by code_simp

lemma ex_spec_score: "spec_score 4 6 = 67"
  by code_simp

lemma ex_find_a3:
  "List.find (\<lambda>a. a_activityId a = ''a3'') (activities_of ex_world_acts)
     = Some (ex_activity ''a3'' ''u2'' ''pending'')"
  by (simp add: activities_of_def ex_world_acts_def ex_activity_def)

theorem grade_quiz_effect_witness:
  "fst (grade_quiz ex_env ''a3'' ex_answers_all ex_world_acts) = Some (100, 6)
   \<and> map a_status (activities_of (snd (grade_quiz ex_env ''a3'' ex_answers_all ex_world_acts)))
       = [Some ''pending'', Some ''completed'', Some ''completed'']
   \<and> map a_lastScore (activities_of (snd (grade_quiz ex_env ''a3'' ex_answers_all ex_world_acts)))
       = [None, None, Some 100]"
proof -
  from grade_quiz_effect [OF ex_find_a3, of ex_env ex_answers_all]
  obtain questions score where
    q: "get_quiz_for_activity ''a3'' ex_world_acts = Some (ex_activity ''a3'' ''u2'' ''pending'', questions)"
    and r: "fst (grade_quiz ex_env ''a3'' ex_answers_all ex_world_acts) = Some (score, length questions)"
    and a: "activities_of (snd (grade_quiz ex_env ''a3'' ex_answers_all ex_world_acts))
             = map (\<lambda>a. if a_activityId a = ''a3''
                        then a\<lparr>a_lastScore := Some score,
                               a_status := Some (if score \<ge> 70 then ''completed'' else ''pending''),
                               a_completedAt := Some (now ex_env)\<rparr>
                        else a) (activities_of ex_world_acts)"
    and f: "(\<forall>q \<in> set questions. ex_answers_all (q_id q) = Some (q_answer q)) \<longrightarrow> score = 100"
    by blast
  have qs: "questions = [Q ''q1'' 0, Q ''q2'' 1, Q ''q3'' 0, Q ''q4'' 1, Q ''q5'' 1, Q ''q6'' 1]"
    using q by (simp add: ex_quiz)
  have "\<forall>q \<in> set questions. ex_answers_all (q_id q) = Some (q_answer q)"
    by (simp add: qs ex_answers_all_def)
  with f have s: "score = 100" by blast
  have acts: "activities_of ex_world_acts
      = [ex_activity ''a1'' ''u1'' ''pending'', ex_activity ''a2'' ''u1'' ''completed'',
         ex_activity ''a3'' ''u2'' ''pending'']"
    by (simp add: ex_world_acts_def activities_of_def)
  show ?thesis
    using r by (simp add: a s qs acts ex_activity_def)
qed

text \<open>
  The claim as stated fails on a quiz of six questions: with four correct answers the code
  returns 66, and \<open>100 \<times> 4 / 6\<close> rounded to the nearest integer is 67.
\<close>

theorem grade_quiz_round_counterexample:
  "fst (grade_quiz ex_env ''a3'' ex_answers_four ex_world_acts) = Some (66, 6)
   \<and> count_correct ex_answers_four [Q ''q1'' 0, Q ''q2'' 1, Q ''q3'' 0, Q ''q4'' 1, Q ''q5'' 1, Q ''q6'' 1] = 4
   \<and> spec_score 4 6 = 67
   \<and> fst (grade_quiz ex_env ''a3'' ex_answers_four ex_world_acts) \<noteq> Some (spec_score 4 6, 6)"
proof -
  have c: "count_correct ex_answers_four [Q ''q1'' 0, Q ''q2'' 1, Q ''q3'' 0, Q ''q4'' 1, Q ''q5'' 1, Q ''q6'' 1] = 4"
    by (simp add: count_correct_def ex_answers_four_def)
  have s: "quiz_score 4 6 = 66" using quiz_score_values_6 by simp
  have l: "length [Q ''q1'' 0, Q ''q2'' 1, Q ''q3'' 0, Q ''q4'' 1, Q ''q5'' 1, Q ''q6'' 1] = 6"
    by simp
  have "fst (grade_quiz ex_env ''a3'' ex_answers_four ex_world_acts) = Some (66, 6)"
    using grade_quiz_found(1) [OF ex_quiz, of ex_env ex_answers_four] by (simp only: c l s)
  then show ?thesis by (simp add: c ex_spec_score)
qed

end
